theory Spec2Isabelle
  imports Complex_Main "HOL-Library.AList" "HOL-Library.Sublist"
begin

section \<open>Values shared by the whole package\<close>

text \<open>
  A Go \<open>error\<close> is an interface whose only method is \<open>Error() string\<close>; the code below
  returns errors unchanged or compares their messages, so an error is modelled by its message.
\<close>

datatype error = Err (message: string)

text \<open>
  A Go function returning \<open>error\<close> either returns (\<open>nil\<close> is \<open>None\<close>) or panics at run time
  (index out of range, nil pointer dereference).
\<close>

datatype outcome = Return "error option" | Panic string

text \<open>
  Every call to a collaborator (prompt, profile store, file system, version control, HTTP) is
  recorded, in order, with its arguments.
\<close>

datatype event =
    SelectRun string string "string list"
  | Printf string
  | GetStripeSampleResourceIDCall string
  | SetStripeSampleResourceIDCall string string
  | WriteConfigFieldCall string string
  | GetAPIKeyCall bool
  | MakeRequestCall string string "string list"
  | AppCacheFolderCall string
  | GetSamplesCall string
  | StatCall string
  | CloneCall string string
  | PullCall string
  | ReadFileCall string
  | UnmarshalConfigCall string
  | CopyCall string string
  | GetFilesCall string
  | OpenCall string
  | DotenvParseCall string
  | GetPublishableKeyCall
  | GetDeviceNameCall
  | AuthorizeCall string string string
  | DotenvWriteCall "(string \<times> string) list" string

section \<open>The manifest (samples.go, lines 25-94)\<close>

text \<open>
  Fields that share a name in the source are told apart by a prefix (\<open>cfgName\<close>,
  \<open>intName\<close>, \<open>rrcName\<close>, \<open>rrName\<close>); the manifest's flag keeps the name of its
  JSON key, \<open>configureDotEnv\<close>.
\<close>

record requiredResourceSampleConfig =
  rrcName :: string
  EnvVar :: string

record sampleConfigIntegration =
  intName :: string
  Clients :: "string list"
  Servers :: "string list"

record sampleConfig =
  cfgName :: string
  configureDotEnv :: bool
  PostInstall :: "string \<rightharpoonup> string"
  Integrations :: "sampleConfigIntegration list"
  RequiredResources :: "requiredResourceSampleConfig list"

definition hasIntegrations :: "sampleConfig \<Rightarrow> bool" where
  "hasIntegrations sc = (length (Integrations sc) > 1)"

definition integrationNames :: "sampleConfig \<Rightarrow> string list" where
  "integrationNames sc = map intName (Integrations sc)"

definition integrationServers :: "sampleConfig \<Rightarrow> string \<Rightarrow> string list" where
  "integrationServers sc n =
     (case List.find (\<lambda>i. intName i = n) (Integrations sc) of
        Some i \<Rightarrow> Servers i
      | None \<Rightarrow> [])"


definition hasServers :: "sampleConfigIntegration \<Rightarrow> bool" where
  "hasServers i = (length (Servers i) > 0)"

definition hasMultipleClients :: "sampleConfigIntegration \<Rightarrow> bool" where
  "hasMultipleClients i = (length (Clients i) > 1)"

definition hasMultipleServers :: "sampleConfigIntegration \<Rightarrow> bool" where
  "hasMultipleServers i = (length (Servers i) > 1)"

text \<open>The method \<open>name()\<close> of an integration: the path component of its files.\<close>

definition name :: "sampleConfigIntegration \<Rightarrow> string" where
  "name i = (if intName i = ''main'' then '''' else intName i)"

section \<open>The profile store\<close>

text \<open>
  Modelled from the spec: the methods \<open>GetStripeSampleResourceID\<close>,
  \<open>SetStripeSampleResourceID\<close> and \<open>WriteConfigField\<close> of \<open>config.Profile\<close> are not in
  this package. The spec describes the ledger as a persistent mapping from catalog name to
  created identifier, written through "its settable in-memory representation and a durable
  write"; a name with no entry reads as the empty string.
\<close>

record profile =
  sampleResourceIDs :: "string \<rightharpoonup> string"
  configFields :: "string \<rightharpoonup> string"

section \<open>The state of a run (samples.go, lines 98-114)\<close>

text \<open>
  The struct \<open>Samples\<close>. \<open>Profile\<close> stands for \<open>s.Config.Profile\<close>. \<open>integration\<close> is a
  pointer into the manifest's integration list (\<open>None\<close> is \<open>nil\<close>); no function here
  changes an integration after it was selected, so the pointer is represented by the value
  it points to. \<open>calls\<close> is the record of collaborator calls made so far.
\<close>

record Samples =
  Profile :: profile
  appName :: string
  repo :: string
  sampleConfig :: sampleConfig
  integration :: "sampleConfigIntegration option"
  client :: string
  server :: string
  calls :: "event list"

definition emit :: "event \<Rightarrow> Samples \<Rightarrow> Samples" where
  "emit e s = s\<lparr>calls := calls s @ [e]\<rparr>"

text \<open>The calls made between an earlier state and a later one.\<close>

definition callsSince :: "Samples \<Rightarrow> Samples \<Rightarrow> event list" where
  "callsSince s s' = drop (length (calls s)) (calls s')"

text \<open>Modelled from the spec: \<open>Profile.GetStripeSampleResourceID\<close> (see above).\<close>

definition GetStripeSampleResourceID :: "Samples \<Rightarrow> string \<Rightarrow> string \<times> Samples" where
  "GetStripeSampleResourceID s n =
     ((case sampleResourceIDs (Profile s) n of None \<Rightarrow> '''' | Some v \<Rightarrow> v),
      emit (GetStripeSampleResourceIDCall n) s)"

text \<open>Modelled from the spec: \<open>Profile.SetStripeSampleResourceID\<close> (see above).\<close>

definition SetStripeSampleResourceID :: "Samples \<Rightarrow> string \<Rightarrow> string \<Rightarrow> Samples" where
  "SetStripeSampleResourceID s n v =
     emit (SetStripeSampleResourceIDCall n v)
       (s\<lparr>Profile := (Profile s)\<lparr>sampleResourceIDs := (sampleResourceIDs (Profile s))(n \<mapsto> v)\<rparr>\<rparr>)"

text \<open>
  Modelled from the spec: \<open>Profile.WriteConfigField\<close> (see above). Its error result is
  discarded by its only caller, \<open>PersistRequiredResourceID\<close>.
\<close>

definition WriteConfigField :: "Samples \<Rightarrow> string \<Rightarrow> string \<Rightarrow> Samples" where
  "WriteConfigField s n v =
     emit (WriteConfigFieldCall n v)
       (s\<lparr>Profile := (Profile s)\<lparr>configFields := (configFields (Profile s))(n \<mapsto> v)\<rparr>\<rparr>)"

section \<open>The static catalog (samples.go, lines 298-344)\<close>

record RequiredResource =
  rrName :: string
  description :: string
  httpPath :: string
  data :: "string list"

definition requiredResources :: "RequiredResource list" where
  "requiredResources =
     [\<lparr>rrName = ''stripe_samples_price_recurring_basic_id'',
       description = ''recurring price for a 'basic' plan'',
       httpPath = ''/v1/prices'',
       data = [''currency=usd'', ''unit_amount=1000'',
               ''product_data[name]=Stripe Sample Basic'', ''recurring[interval]=month'']\<rparr>,
      \<lparr>rrName = ''stripe_samples_price_recurring_pro_id'',
       description = ''recurring price for a 'pro' plan'',
       httpPath = ''/v1/prices'',
       data = [''currency=usd'', ''unit_amount=1000'',
               ''product_data[name]=Stripe Sample Pro'', ''recurring[interval]=month'']\<rparr>]"

definition getRequiredResource :: "string \<Rightarrow> RequiredResource option" where
  "getRequiredResource n = List.find (\<lambda>rr. rrName rr = n) requiredResources"

section \<open>The gap check (samples.go, lines 396-409)\<close>

text \<open>
  The loop of \<open>MissingRequiredResources\<close> over the declared resources, with \<open>ret\<close> as
  accumulator. A Go slice result is \<open>None\<close> when it is \<open>nil\<close>.
\<close>

fun missingLoop ::
  "Samples \<Rightarrow> requiredResourceSampleConfig list \<Rightarrow> RequiredResource list
     \<Rightarrow> RequiredResource list option \<times> Samples" where
  "missingLoop s [] ret = (Some ret, s)"
| "missingLoop s (rrConfig # rest) ret =
     (case getRequiredResource (rrcName rrConfig) of
        None \<Rightarrow> (None, s)
      | Some rr \<Rightarrow>
          (case GetStripeSampleResourceID s (rrName rr) of
             (ident, s') \<Rightarrow> missingLoop s' rest (if ident = '''' then ret @ [rr] else ret)))"

definition MissingRequiredResources :: "Samples \<Rightarrow> RequiredResource list option \<times> Samples" where
  "MissingRequiredResources s = missingLoop s (RequiredResources (sampleConfig s)) []"

text \<open>\<open>len\<close> and \<open>range\<close> treat a nil slice as the empty one.\<close>

definition elems :: "'a list option \<Rightarrow> 'a list" where
  "elems xs = (case xs of None \<Rightarrow> [] | Some ys \<Rightarrow> ys)"

text \<open>The identifier the profile holds for a name, the empty string when it holds none.\<close>

definition storedID :: "profile \<Rightarrow> string \<Rightarrow> string" where
  "storedID p n = (case sampleResourceIDs p n of None \<Rightarrow> '''' | Some v \<Rightarrow> v)"

section \<open>Collaborators\<close>

text \<open>
  The interactive prompt, the rest of the profile store, the HTTP executor, the version
  control client, the file system and the JSON and dotenv decoders are outside this
  package. Each is a function the run is given; its answer may depend on its arguments and
  on every call made before (\<open>calls\<close>), so that the same question can be answered
  differently the second time.
\<close>

text \<open>
  What \<open>json.Unmarshal\<close> stores in an \<open>interface{}\<close>: \<open>nil\<close>, \<open>bool\<close>,
  \<open>float64\<close>, \<open>string\<close>, \<open>[]interface{}\<close> or \<open>map[string]interface{}\<close>.
\<close>

datatype goval =
    VNil
  | VBool bool
  | VFloat64 real
  | VString string
  | VSlice "goval list"
  | VMap "(string \<times> goval) list"

datatype statResult = StatOK | StatNotExist | StatError error

record world =
  promptRun :: "event list \<Rightarrow> string \<Rightarrow> string \<Rightarrow> string list \<Rightarrow> error + string"
  GetAPIKey :: "event list \<Rightarrow> bool \<Rightarrow> error + string"
  MakeRequest :: "event list \<Rightarrow> string \<Rightarrow> string \<Rightarrow> string list \<Rightarrow> error + string"
  unmarshalFields :: "string \<Rightarrow> error + (string \<rightharpoonup> goval)"
  appCacheFolder :: "event list \<Rightarrow> string \<Rightarrow> error + string"
  GetSamples :: "event list \<Rightarrow> string \<Rightarrow> string \<Rightarrow> string"
  Stat :: "event list \<Rightarrow> string \<Rightarrow> statResult"
  Clone :: "event list \<Rightarrow> string \<Rightarrow> string \<Rightarrow> error option"
  Pull :: "event list \<Rightarrow> string \<Rightarrow> error option"
  ReadFile :: "event list \<Rightarrow> string \<Rightarrow> error + string"
  unmarshalConfig :: "string \<Rightarrow> sampleConfig \<Rightarrow> error option \<times> sampleConfig"
  copyCopy :: "event list \<Rightarrow> string \<Rightarrow> string \<Rightarrow> error option"
  GetFiles :: "event list \<Rightarrow> string \<Rightarrow> error + string list"
  fsOpen :: "event list \<Rightarrow> string \<Rightarrow> error + string"
  dotenvParse :: "string \<Rightarrow> error + (string \<times> string) list"
  GetPublishableKey :: "event list \<Rightarrow> string"
  GetDeviceName :: "event list \<Rightarrow> error + string"
  Authorize :: "event list \<Rightarrow> string \<Rightarrow> string \<Rightarrow> string \<Rightarrow> error + string"
  dotenvWrite :: "event list \<Rightarrow> (string \<times> string) list \<Rightarrow> string \<Rightarrow> error option"

text \<open>
  \<open>promptRun\<close> is \<open>promptui.Select.Run\<close> for a selected-line template, a label and the
  items; \<open>unmarshalFields\<close> is \<open>json.Unmarshal\<close> into a nil \<open>map[string]interface{}\<close>
  (the JSON value \<open>null\<close> leaves the map nil, which reads as the empty map; any other
  non-object is an error); \<open>unmarshalConfig\<close> is \<open>json.Unmarshal\<close> into the manifest held
  so far; \<open>GetSamples w h mode app\<close> is \<open>GetSamples(mode)[app].GitRepo()\<close>; \<open>Authorize\<close>
  takes the API key of the client, the device name and the purpose and gives the secret of
  the session; \<open>fsOpen\<close> gives the contents that \<open>dotenvParse\<close> reads.
\<close>

text \<open>One call to a collaborator: its answer for the calls so far, and the call recorded.\<close>

definition call :: "(event list \<Rightarrow> 'a) \<Rightarrow> event \<Rightarrow> Samples \<Rightarrow> 'a \<times> Samples" where
  "call f e s = (f (calls s), emit e s)"

section \<open>Prompts (samples.go, lines 506-575)\<close>

text \<open>A Go result pair \<open>(value, err)\<close> is kept as a pair, followed by the state.\<close>

definition selectOptions ::
  "world \<Rightarrow> Samples \<Rightarrow> string \<Rightarrow> string \<Rightarrow> string list \<Rightarrow> string \<times> error option \<times> Samples" where
  "selectOptions w s template label options =
     (case call (\<lambda>h. promptRun w h template label options)
             (SelectRun template label options) s of
        (Inl err, s') \<Rightarrow> ('''', Some err, s')
      | (Inr result, s') \<Rightarrow> (result, None, s'))"

definition clientSelectPrompt ::
  "world \<Rightarrow> Samples \<Rightarrow> string list \<Rightarrow> string \<times> error option \<times> Samples" where
  "clientSelectPrompt w s clients =
     (case selectOptions w s ''client'' ''Which client would you like to use'' clients of
        (selected, Some err, s') \<Rightarrow> ('''', Some err, s')
      | (selected, None, s') \<Rightarrow> (selected, None, s'))"

text \<open>The loop keeps the last integration whose name is the selected one.\<close>

definition integrationSelectPrompt ::
  "world \<Rightarrow> Samples \<Rightarrow> sampleConfig
     \<Rightarrow> sampleConfigIntegration option \<times> error option \<times> Samples" where
  "integrationSelectPrompt w s sc =
     (case selectOptions w s ''integration''
             ''What type of integration would you like to use'' (integrationNames sc) of
        (selected, Some err, s') \<Rightarrow> (None, Some err, s')
      | (selected, None, s') \<Rightarrow>
          (List.find (\<lambda>i. intName i = selected) (rev (Integrations sc)), None, s'))"

text \<open>\<open>strings.Join\<close>.\<close>

fun stringsJoin :: "string list \<Rightarrow> string \<Rightarrow> string" where
  "stringsJoin [] sep = []"
| "stringsJoin [x] sep = x"
| "stringsJoin (x # y # rest) sep = x @ sep @ stringsJoin (y # rest) sep"

definition newline :: string where
  "newline = [char_of (10::nat)]"

definition shouldCreateRequiredResourcesPrompt ::
  "world \<Rightarrow> Samples \<Rightarrow> string list \<Rightarrow> bool \<times> error option \<times> Samples" where
  "shouldCreateRequiredResourcesPrompt w s descriptions =
     (let descriptionList = stringsJoin descriptions (newline @ ''  * '');
          s1 = emit (Printf (''This Stripe Sample requires a few pre-existing resources to exist in test mode on your Stripe Account:''
                 @ newline @ ''  * '' @ descriptionList @ newline)) s
      in case selectOptions w s1 ''auto-create behavior''
                ''Would you like us to automatically create these and configure their IDs?''
                [''yes'', ''no''] of
           (selected, Some err, s') \<Rightarrow> (False, Some err, s')
         | (selected, None, s') \<Rightarrow> (selected = ''yes'', None, s'))"

definition serverSelectPrompt ::
  "world \<Rightarrow> Samples \<Rightarrow> string list \<Rightarrow> string \<times> error option \<times> Samples" where
  "serverSelectPrompt w s servers =
     (case selectOptions w s ''server'' ''What server would you like to use'' servers of
        (selected, Some err, s') \<Rightarrow> ('''', Some err, s')
      | (selected, None, s') \<Rightarrow> (selected, None, s'))"

section \<open>The provisioner (samples.go, lines 349-391)\<close>

definition CreateRequiredResource ::
  "world \<Rightarrow> Samples \<Rightarrow> string \<Rightarrow> string \<times> error option \<times> Samples" where
  "CreateRequiredResource w s requiredResourceName =
     (case getRequiredResource requiredResourceName of
        None \<Rightarrow>
          ('''', Some (Err (''Unexpected: tried to create unknown required resource ''
                          @ requiredResourceName)), s)
      | Some rr \<Rightarrow>
          (case call (\<lambda>h. GetAPIKey w h False) (GetAPIKeyCall False) s of
             (Inl err, s1) \<Rightarrow> ('''', Some err, s1)
           | (Inr apiKey, s1) \<Rightarrow>
               (case call (\<lambda>h. MakeRequest w h apiKey (httpPath rr) (data rr))
                       (MakeRequestCall apiKey (httpPath rr) (data rr)) s1 of
                  (Inl err, s2) \<Rightarrow> ('''', Some err, s2)
                | (Inr bytes, s2) \<Rightarrow>
                    (case unmarshalFields w bytes of
                       Inl err \<Rightarrow> ('''', Some err, s2)
                     | Inr fieldMap \<Rightarrow>
                         (case fieldMap ''id'' of
                            Some (VString ident) \<Rightarrow> (ident, None, s2)
                          | _ \<Rightarrow>
                              ('''', Some (Err (''Unexpected response from stripe API when creating ''
                                   @ requiredResourceName @ '', did not contain ID: '' @ bytes)),
                               s2))))))"

definition PersistRequiredResourceID ::
  "Samples \<Rightarrow> string \<Rightarrow> string \<Rightarrow> error option \<times> Samples" where
  "PersistRequiredResourceID s resourceName ident =
     (None, WriteConfigField (SetStripeSampleResourceID s resourceName ident) resourceName ident)"

section \<open>Selection (samples.go, lines 170-223)\<close>

text \<open>
  \<open>SelectOptions\<close> is four blocks in sequence. Each of the first three either falls
  through to the next statement (\<open>None\<close>) or ends the call.
\<close>

definition nilDereference :: string where
  "nilDereference = ''runtime error: invalid memory address or nil pointer dereference''"

text \<open>Lines 173-180: the integration.\<close>

definition selectIntegration :: "world \<Rightarrow> Samples \<Rightarrow> outcome option \<times> Samples" where
  "selectIntegration w s =
     (if hasIntegrations (sampleConfig s) then
        (case integrationSelectPrompt w s (sampleConfig s) of
           (i, Some err, s') \<Rightarrow> (Some (Return (Some err)), s'\<lparr>integration := i\<rparr>)
         | (i, None, s') \<Rightarrow> (None, s'\<lparr>integration := i\<rparr>))
      else
        (case Integrations (sampleConfig s) of
           [] \<Rightarrow> (Some (Panic ''runtime error: index out of range [0] with length 0''), s)
         | i # _ \<Rightarrow> (None, s\<lparr>integration := Some i\<rparr>)))"

text \<open>Lines 182-189: the client.\<close>

definition selectClient :: "world \<Rightarrow> Samples \<Rightarrow> outcome option \<times> Samples" where
  "selectClient w s =
     (case integration s of
        None \<Rightarrow> (Some (Panic nilDereference), s)
      | Some i \<Rightarrow>
          if hasMultipleClients i then
            (case clientSelectPrompt w s (Clients i) of
               (c, Some err, s') \<Rightarrow> (Some (Return None), s'\<lparr>client := c\<rparr>)
             | (c, None, s') \<Rightarrow> (None, s'\<lparr>client := c\<rparr>))
          else (None, s\<lparr>client := ''''\<rparr>))"

text \<open>Lines 191-198: the server.\<close>

definition selectServer :: "world \<Rightarrow> Samples \<Rightarrow> outcome option \<times> Samples" where
  "selectServer w s =
     (case integration s of
        None \<Rightarrow> (Some (Panic nilDereference), s)
      | Some i \<Rightarrow>
          if hasMultipleServers i then
            (case serverSelectPrompt w s (Servers i) of
               (v, Some err, s') \<Rightarrow> (Some (Return (Some err)), s'\<lparr>server := v\<rparr>)
             | (v, None, s') \<Rightarrow> (None, s'\<lparr>server := v\<rparr>))
          else (None, s\<lparr>server := ''''\<rparr>))"

text \<open>Lines 212-218: the creation loop over the missing resources.\<close>

fun createLoop :: "world \<Rightarrow> Samples \<Rightarrow> RequiredResource list \<Rightarrow> outcome \<times> Samples" where
  "createLoop w s [] = (Return None, s)"
| "createLoop w s (r # rest) =
     (case CreateRequiredResource w s (rrName r) of
        (ident, Some err, s') \<Rightarrow> (Return (Some err), s')
      | (ident, None, s') \<Rightarrow>
          createLoop w (snd (PersistRequiredResourceID s' (rrName r) ident)) rest)"

text \<open>Lines 200-222: the gap check and the provisioning.\<close>

definition provision :: "world \<Rightarrow> Samples \<Rightarrow> outcome \<times> Samples" where
  "provision w s =
     (case MissingRequiredResources s of
        (missingResources, s1) \<Rightarrow>
          if length (elems missingResources) > 0 then
            (case shouldCreateRequiredResourcesPrompt w s1
                    (map description (elems missingResources)) of
               (shouldCreate, Some err, s2) \<Rightarrow> (Return (Some err), s2)
             | (shouldCreate, None, s2) \<Rightarrow>
                 if shouldCreate then createLoop w s2 (elems missingResources)
                 else (Return None, s2))
          else (Return None, s1))"

definition SelectOptions :: "world \<Rightarrow> Samples \<Rightarrow> outcome \<times> Samples" where
  "SelectOptions w s =
     (case selectIntegration w s of
        (Some out, s1) \<Rightarrow> (out, s1)
      | (None, s1) \<Rightarrow>
          (case selectClient w s1 of
             (Some out, s2) \<Rightarrow> (out, s2)
           | (None, s2) \<Rightarrow>
               (case selectServer w s2 of
                  (Some out, s3) \<Rightarrow> (out, s3)
                | (None, s3) \<Rightarrow> provision w s3)))"

section \<open>Paths\<close>

text \<open>
  \<open>filepath.Join\<close> and \<open>filepath.Clean\<close> of the Go standard library, for the slash as
  separator, after their documentation: \<open>Join\<close> joins its elements from the first
  non-empty one on with a slash and cleans the result (it gives the empty string when
  every element is empty); \<open>Clean\<close> removes empty and \<open>.\<close> elements, removes an inner
  \<open>..\<close> with the element before it, removes \<open>..\<close> at the start of a rooted path, and
  gives \<open>.\<close> for an empty result.
\<close>

fun splitSep :: "string \<Rightarrow> string list" where
  "splitSep [] = [[]]"
| "splitSep (c # cs) =
     (if c = CHR ''/'' then [] # splitSep cs
      else (case splitSep cs of
              [] \<Rightarrow> [[c]]
            | el # els \<Rightarrow> (c # el) # els))"

definition cleanStep :: "bool \<Rightarrow> string list \<Rightarrow> string \<Rightarrow> string list" where
  "cleanStep rooted out el =
     (if el = [] \<or> el = ''.'' then out
      else if el = ''..'' then
        (if out \<noteq> [] \<and> last out \<noteq> ''..'' then butlast out
         else if rooted then out
         else out @ [''..''])
      else out @ [el])"

definition Clean :: "string \<Rightarrow> string" where
  "Clean path =
     (case path of
        [] \<Rightarrow> ''.''
      | c # _ \<Rightarrow>
          (let rooted = (c = CHR ''/'');
               body = stringsJoin (foldl (cleanStep rooted) [] (splitSep path)) ''/''
           in if rooted then CHR ''/'' # body
              else if body = [] then ''.'' else body))"

definition Join :: "string list \<Rightarrow> string" where
  "Join elem =
     (case dropWhile (\<lambda>e. e = []) elem of
        [] \<Rightarrow> []
      | es \<Rightarrow> Clean (stringsJoin es ''/''))"

section \<open>The repository cache and the manifest parser (samples.go, lines 122-166)\<close>

text \<open>\<open>git.NoErrAlreadyUpToDate\<close> of go-git, which \<open>Initialize\<close> recognises by its message.\<close>

definition NoErrAlreadyUpToDate :: error where
  "NoErrAlreadyUpToDate = Err ''already up-to-date''"

text \<open>Lines 134-153: clone the repository when the cache folder is absent, pull otherwise.\<close>

definition syncRepo :: "world \<Rightarrow> Samples \<Rightarrow> string \<Rightarrow> string \<Rightarrow> error option \<times> Samples" where
  "syncRepo w s app appPath =
     (case call (\<lambda>h. GetSamples w h ''create'' app) (GetSamplesCall ''create'') s of
        (gitRepo, s1) \<Rightarrow>
          (case call (\<lambda>h. Stat w h appPath) (StatCall appPath) s1 of
             (StatNotExist, s2) \<Rightarrow>
               call (\<lambda>h. Clone w h appPath gitRepo) (CloneCall appPath gitRepo) s2
           | (_, s2) \<Rightarrow>
               (case call (\<lambda>h. Pull w h appPath) (PullCall appPath) s2 of
                  (None, s3) \<Rightarrow> (None, s3)
                | (Some err, s3) \<Rightarrow>
                    if message err = message NoErrAlreadyUpToDate then (None, s3)
                    else (Some err, s3))))"

text \<open>Lines 155-165: read and parse the descriptor.\<close>

definition parseConfig :: "world \<Rightarrow> Samples \<Rightarrow> string \<Rightarrow> outcome \<times> Samples" where
  "parseConfig w s appPath =
     (case call (\<lambda>h. ReadFile w h (Join [appPath, ''.cli.json'']))
             (ReadFileCall (Join [appPath, ''.cli.json''])) s of
        (Inl err, s1) \<Rightarrow> (Return (Some err), s1)
      | (Inr configFile, s1) \<Rightarrow>
          (case unmarshalConfig w configFile (sampleConfig s1) of
             (err, sc) \<Rightarrow>
               (Return err, emit (UnmarshalConfigCall configFile) (s1\<lparr>sampleConfig := sc\<rparr>))))"

definition Initialize :: "world \<Rightarrow> Samples \<Rightarrow> string \<Rightarrow> outcome \<times> Samples" where
  "Initialize w s app =
     (case call (\<lambda>h. appCacheFolder w h app) (AppCacheFolderCall app) (s\<lparr>appName := app\<rparr>) of
        (Inl err, s1) \<Rightarrow> (Return (Some err), s1)
      | (Inr appPath, s1) \<Rightarrow>
          (case syncRepo w (s1\<lparr>repo := appPath\<rparr>) app appPath of
             (Some err, s2) \<Rightarrow> (Return (Some err), s2)
           | (None, s2) \<Rightarrow> parseConfig w s2 appPath))"

section \<open>The file materializer (samples.go, lines 243-292)\<close>








section \<open>The environment composer (samples.go, lines 413-475)\<close>

text \<open>
  The dotenv mapping is a list of pairs with one pair for each key. Lines 459-464: the
  identifiers of the required resources that have one.
\<close>

fun injectResourceIDs ::
  "Samples \<Rightarrow> (string \<times> string) list \<Rightarrow> requiredResourceSampleConfig list
     \<Rightarrow> (string \<times> string) list \<times> Samples" where
  "injectResourceIDs s dotenv [] = (dotenv, s)"
| "injectResourceIDs s dotenv (rrConfig # rest) =
     (case GetStripeSampleResourceID s (rrcName rrConfig) of
        (ident, s') \<Rightarrow>
          injectResourceIDs s'
            (if ident \<noteq> '''' then AList.update (EnvVar rrConfig) ident dotenv else dotenv) rest)"

definition ConfigureDotEnv :: "world \<Rightarrow> Samples \<Rightarrow> string \<Rightarrow> outcome \<times> Samples" where
  "ConfigureDotEnv w s sampleLocation =
     (case integration s of
        None \<Rightarrow> (Panic nilDereference, s)
      | Some i \<Rightarrow>
          if hasServers i then
            (if \<not> configureDotEnv (sampleConfig s) then (Return None, s)
             else
               (case call (\<lambda>h. fsOpen w h (Join [sampleLocation, ''.env.example'']))
                       (OpenCall (Join [sampleLocation, ''.env.example''])) s of
                  (Inl err, s1) \<Rightarrow> (Return (Some err), s1)
                | (Inr file, s1) \<Rightarrow>
               (case call (\<lambda>h. dotenvParse w file) (DotenvParseCall file) s1 of
                  (Inl err, s2) \<Rightarrow> (Return (Some err), s2)
                | (Inr dotenv, s2) \<Rightarrow>
               (case call (GetPublishableKey w) GetPublishableKeyCall s2 of
                  (publishableKey, s3) \<Rightarrow>
               if publishableKey = '''' then
                 (Return (Some (Err ''we could not set the publishable key in the .env file; please set this manually or login again to set it automatically next time'')), s3)
               else
               (case call (\<lambda>h. GetAPIKey w h False) (GetAPIKeyCall False) s3 of
                  (Inl err, s4) \<Rightarrow> (Return (Some err), s4)
                | (Inr apiKey, s4) \<Rightarrow>
               (case call (GetDeviceName w) GetDeviceNameCall s4 of
                  (Inl err, s5) \<Rightarrow> (Return (Some err), s5)
                | (Inr deviceName, s5) \<Rightarrow>
               (case call (\<lambda>h. Authorize w h apiKey deviceName ''webhooks'')
                       (AuthorizeCall apiKey deviceName ''webhooks'') s5 of
                  (Inl err, s6) \<Rightarrow> (Return (Some err), s6)
                | (Inr secret, s6) \<Rightarrow>
               (case injectResourceIDs s6
                       (AList.update ''STATIC_DIR'' ''../client''
                         (AList.update ''STRIPE_WEBHOOK_SECRET'' secret
                           (AList.update ''STRIPE_SECRET_KEY'' apiKey
                             (AList.update ''STRIPE_PUBLISHABLE_KEY'' publishableKey dotenv))))
                       (RequiredResources (sampleConfig s6)) of
                  (dotenv', s7) \<Rightarrow>
               (case call (\<lambda>h. dotenvWrite w h dotenv' (Join [sampleLocation, ''server'', ''.env'']))
                       (DotenvWriteCall dotenv' (Join [sampleLocation, ''server'', ''.env''])) s7 of
                  (err, s8) \<Rightarrow> (Return err, s8))))))))))
          else (Return None, s))"

section \<open>Vocabulary for the record of calls\<close>

text \<open>
  The predicates below classify recorded calls, so that a statement can say which
  collaborator was or was not reached. \<open>isPrompt t\<close> holds of a prompt shown with the
  selected-line template \<open>t\<close>; \<open>provisionEvent\<close> holds of the calls the gap check and
  the provisioning make; \<open>grows P s s'\<close> says that the calls of \<open>s'\<close> are those of
  \<open>s\<close> followed by calls that all satisfy \<open>P\<close>.
\<close>

fun isPrompt :: "string \<Rightarrow> event \<Rightarrow> bool" where
  "isPrompt t (SelectRun t' l items) = (t' = t)"
| "isPrompt t _ = False"

fun provisionEvent :: "event \<Rightarrow> bool" where
  "provisionEvent (GetStripeSampleResourceIDCall n) = True"
| "provisionEvent (Printf x) = True"
| "provisionEvent (SelectRun t l items) = (t = ''auto-create behavior'')"
| "provisionEvent (GetAPIKeyCall b) = True"
| "provisionEvent (MakeRequestCall k p d) = True"
| "provisionEvent (SetStripeSampleResourceIDCall n v) = True"
| "provisionEvent (WriteConfigFieldCall n v) = True"
| "provisionEvent _ = False"

definition grows :: "(event \<Rightarrow> bool) \<Rightarrow> Samples \<Rightarrow> Samples \<Rightarrow> bool" where
  "grows P s s' = (\<exists>evs. calls s' = calls s @ evs \<and> list_all P evs)"

text \<open>Only the profile and the record of calls may differ.\<close>

definition sameSelection :: "Samples \<Rightarrow> Samples \<Rightarrow> bool" where
  "sameSelection s s' =
     (integration s' = integration s \<and> client s' = client s \<and> server s' = server s
      \<and> sampleConfig s' = sampleConfig s \<and> repo s' = repo s \<and> appName s' = appName s)"

definition provisioned :: "Samples \<Rightarrow> Samples \<Rightarrow> bool" where
  "provisioned s s' = (grows provisionEvent s s' \<and> sameSelection s s')"

text \<open>The three selection prompts, as they are recorded.\<close>

definition clientPrompt :: "sampleConfigIntegration \<Rightarrow> event" where
  "clientPrompt i = SelectRun ''client'' ''Which client would you like to use'' (Clients i)"

definition serverPrompt :: "sampleConfigIntegration \<Rightarrow> event" where
  "serverPrompt i = SelectRun ''server'' ''What server would you like to use'' (Servers i)"

definition integrationPrompt :: "sampleConfig \<Rightarrow> event" where
  "integrationPrompt sc =
     SelectRun ''integration'' ''What type of integration would you like to use''
       (integrationNames sc)"

text \<open>What the blocks after the integration may call.\<close>

definition laterEvent :: "event \<Rightarrow> bool" where
  "laterEvent e = (isPrompt ''client'' e \<or> isPrompt ''server'' e \<or> provisionEvent e)"

text \<open>What the blocks after the client may call.\<close>

definition finalEvent :: "event \<Rightarrow> bool" where
  "finalEvent e = (isPrompt ''server'' e \<or> provisionEvent e)"




text \<open>The identifier of a name is in the ledger, in memory and on disk alike.\<close>

definition persisted :: "profile \<Rightarrow> string \<Rightarrow> bool" where
  "persisted p n =
     (case sampleResourceIDs p n of None \<Rightarrow> False | Some v \<Rightarrow> configFields p n = Some v)"

text \<open>What one creation may call: it never writes to the profile.\<close>

fun createEvent :: "event \<Rightarrow> bool" where
  "createEvent (GetAPIKeyCall b) = True"
| "createEvent (MakeRequestCall k p d) = True"
| "createEvent _ = False"

section \<open>Example inputs\<close>

definition emptyProfile :: profile where
  "emptyProfile = \<lparr>sampleResourceIDs = Map.empty, configFields = Map.empty\<rparr>"

text \<open>The ledger of the spec's round trip: the basic price is already recorded.\<close>

definition ledgerProfile :: profile where
  "ledgerProfile =
     \<lparr>sampleResourceIDs = [''stripe_samples_price_recurring_basic_id'' \<mapsto> ''price_123''],
      configFields = [''stripe_samples_price_recurring_basic_id'' \<mapsto> ''price_123'']\<rparr>"

definition emptyConfig :: sampleConfig where
  "emptyConfig = \<lparr>cfgName = '''', configureDotEnv = False, PostInstall = Map.empty,
     Integrations = [], RequiredResources = []\<rparr>"

text \<open>A freshly allocated \<open>Samples\<close>: every field of its own at its zero value.\<close>

definition newSamples :: "profile \<Rightarrow> sampleConfig \<Rightarrow> Samples" where
  "newSamples p sc = \<lparr>Profile = p, appName = '''', repo = '''', sampleConfig = sc,
     integration = None, client = '''', server = '''', calls = []\<rparr>"

definition basicRef :: requiredResourceSampleConfig where
  "basicRef = \<lparr>rrcName = ''stripe_samples_price_recurring_basic_id'', EnvVar = ''BASIC''\<rparr>"

definition proRef :: requiredResourceSampleConfig where
  "proRef = \<lparr>rrcName = ''stripe_samples_price_recurring_pro_id'', EnvVar = ''PRO''\<rparr>"

definition unknownRef :: requiredResourceSampleConfig where
  "unknownRef = \<lparr>rrcName = ''stripe_samples_product_id'', EnvVar = ''PRODUCT''\<rparr>"

definition idleWorld :: world where
  "idleWorld =
     \<lparr>promptRun = (\<lambda>h template label items.
          case items of [] \<Rightarrow> Inl (Err ''no items'') | x # _ \<Rightarrow> Inr x),
      GetAPIKey = (\<lambda>h livemode. Inr ''sk_test_1''),
      MakeRequest = (\<lambda>h apiKey path params. Inr ''created''),
      unmarshalFields = (\<lambda>bytes.
          if bytes = ''created'' then Inr [''id'' \<mapsto> VString ''price_new'']
          else Inl (Err ''unexpected end of JSON input'')),
      appCacheFolder = (\<lambda>h app. Inr (''/cache/'' @ app)),
      GetSamples = (\<lambda>h mode app. ''https://example.test/'' @ app @ ''.git''),
      Stat = (\<lambda>h path. StatOK),
      Clone = (\<lambda>h path url. None),
      Pull = (\<lambda>h path. None),
      ReadFile = (\<lambda>h path. Inr ''manifest''),
      unmarshalConfig = (\<lambda>bytes sc. (None, sc)),
      copyCopy = (\<lambda>h src dst. None),
      GetFiles = (\<lambda>h path. Inr []),
      fsOpen = (\<lambda>h path. Inr ''''),
      dotenvParse = (\<lambda>file. Inr []),
      GetPublishableKey = (\<lambda>h. ''pk_test_1''),
      GetDeviceName = (\<lambda>h. Inr ''laptop''),
      Authorize = (\<lambda>h apiKey deviceName purpose. Inr ''whsec_1''),
      dotenvWrite = (\<lambda>h dotenv path. None)\<rparr>"

text \<open>A user who cancels the client prompt.\<close>

definition cancelClientWorld :: world where
  "cancelClientWorld =
     idleWorld\<lparr>promptRun := (\<lambda>h template label items.
        if template = ''client'' then Inl (Err ''^C'')
        else promptRun idleWorld h template label items)\<rparr>"

definition webNodeRuby :: sampleConfigIntegration where
  "webNodeRuby = \<lparr>intName = ''main'', Clients = [''web''], Servers = [''node'', ''ruby'']\<rparr>"

definition twoClients :: sampleConfigIntegration where
  "twoClients = \<lparr>intName = ''main'', Clients = [''web'', ''mobile''], Servers = [''node'', ''ruby'']\<rparr>"

definition oneClientSamples :: Samples where
  "oneClientSamples = newSamples emptyProfile (emptyConfig\<lparr>Integrations := [webNodeRuby]\<rparr>)"

definition twoClientSamples :: Samples where
  "twoClientSamples =
     newSamples emptyProfile
       (emptyConfig\<lparr>Integrations := [twoClients], RequiredResources := [basicRef]\<rparr>)"

definition webNode :: sampleConfigIntegration where
  "webNode = \<lparr>intName = ''main'', Clients = [''web''], Servers = [''node'']\<rparr>"

text \<open>A repository that is in the cache and has nothing new to pull.\<close>

definition upToDateWorld :: world where
  "upToDateWorld = idleWorld\<lparr>Pull := (\<lambda>h path. Some NoErrAlreadyUpToDate)\<rparr>"

text \<open>A repository that is in the cache and cannot be reached.\<close>

definition offlineWorld :: world where
  "offlineWorld = idleWorld\<lparr>Pull := (\<lambda>h path. Some (Err ''repository not found''))\<rparr>"



text \<open>
  An API that creates the basic price and answers any other request with an object that
  has no identifier.
\<close>

definition basicOnlyWorld :: world where
  "basicOnlyWorld =
     idleWorld\<lparr>MakeRequest := (\<lambda>h apiKey path params.
          if ''product_data[name]=Stripe Sample Basic'' \<in> set params then Inr ''created''
          else Inr ''{}''),
        unmarshalFields := (\<lambda>bytes.
          if bytes = ''created'' then Inr [''id'' \<mapsto> VString ''price_new'']
          else if bytes = ''{}'' then Inr Map.empty
          else Inl (Err ''unexpected end of JSON input''))\<rparr>"

definition provisionSamples :: Samples where
  "provisionSamples =
     newSamples emptyProfile
       (emptyConfig\<lparr>Integrations := [webNode], RequiredResources := [basicRef, proRef]\<rparr>)"

text \<open>The same run after the selection, the gap check and the answer \<open>yes\<close>.\<close>

definition askedSamples :: Samples where
  "askedSamples =
     provisionSamples
       \<lparr>integration := Some webNode,
         calls := [GetStripeSampleResourceIDCall ''stripe_samples_price_recurring_basic_id'',
                   GetStripeSampleResourceIDCall ''stripe_samples_price_recurring_pro_id'',
                   Printf (''This Stripe Sample requires a few pre-existing resources to exist in test mode on your Stripe Account:''
                     @ newline @ ''  * ''
                     @ stringsJoin (map description requiredResources) (newline @ ''  * '')
                     @ newline),
                   SelectRun ''auto-create behavior''
                     ''Would you like us to automatically create these and configure their IDs?''
                     [''yes'', ''no'']]\<rparr>"

text \<open>... after the basic price was created and recorded ...\<close>

definition basicCreated :: Samples where
  "basicCreated =
     askedSamples
       \<lparr>Profile := \<lparr>sampleResourceIDs = [''stripe_samples_price_recurring_basic_id'' \<mapsto> ''price_new''],
                     configFields = [''stripe_samples_price_recurring_basic_id'' \<mapsto> ''price_new'']\<rparr>,
         calls := calls askedSamples @
                  [GetAPIKeyCall False,
                   MakeRequestCall ''sk_test_1'' ''/v1/prices'' (data (hd requiredResources)),
                   SetStripeSampleResourceIDCall ''stripe_samples_price_recurring_basic_id'' ''price_new'',
                   WriteConfigFieldCall ''stripe_samples_price_recurring_basic_id'' ''price_new'']\<rparr>"

text \<open>... and after the creation of the pro price was refused.\<close>

definition proRefused :: Samples where
  "proRefused =
     basicCreated
       \<lparr>calls := calls basicCreated @
                  [GetAPIKeyCall False,
                   MakeRequestCall ''sk_test_1'' ''/v1/prices'' (data (requiredResources ! 1))]\<rparr>"

section \<open>Properties of the gap check\<close>

lemma GetStripeSampleResourceID_fst:
  "fst (GetStripeSampleResourceID s n) = storedID (Profile s) n"
  by (simp add: GetStripeSampleResourceID_def storedID_def)

lemma GetStripeSampleResourceID_Profile:
  "Profile (snd (GetStripeSampleResourceID s n)) = Profile s"
  by (simp add: GetStripeSampleResourceID_def emit_def)

lemma getRequiredResource_basic:
  "getRequiredResource ''stripe_samples_price_recurring_basic_id'' = Some (hd requiredResources)"
  by (simp add: getRequiredResource_def requiredResources_def)

lemma getRequiredResource_pro:
  "getRequiredResource ''stripe_samples_price_recurring_pro_id'' = Some (requiredResources ! 1)"
  by (simp add: getRequiredResource_def requiredResources_def)

lemma getRequiredResource_unknown: "getRequiredResource ''stripe_samples_product_id'' = None"
  by (simp add: getRequiredResource_def requiredResources_def)

lemma missingLoop_resolved:
  "\<forall>c\<in>set refs. getRequiredResource (rrcName c) \<noteq> None \<Longrightarrow>
   fst (missingLoop s refs ret) =
     Some (ret @ [rr \<leftarrow> map (\<lambda>c. the (getRequiredResource (rrcName c))) refs.
                    storedID (Profile s) (rrName rr) = ''''])"
proof (induction refs arbitrary: s ret)
  case Nil
  show ?case by simp
next
  case (Cons c refs)
  from Cons.prems obtain rr where rr: "getRequiredResource (rrcName c) = Some rr" by auto
  obtain ident s' where g: "GetStripeSampleResourceID s (rrName rr) = (ident, s')"
    by (cases "GetStripeSampleResourceID s (rrName rr)")
  have ident: "ident = storedID (Profile s) (rrName rr)"
    using GetStripeSampleResourceID_fst [of s "rrName rr"] g by simp
  have prof: "Profile s' = Profile s"
    using GetStripeSampleResourceID_Profile [of s "rrName rr"] g by simp
  have rest: "\<forall>c\<in>set refs. getRequiredResource (rrcName c) \<noteq> None"
    using Cons.prems by simp
  show ?case
    using Cons.IH [OF rest, of s'] rr g ident prof by simp
qed

lemma missingLoop_unknown:
  "\<exists>c\<in>set refs. getRequiredResource (rrcName c) = None \<Longrightarrow>
   fst (missingLoop s refs ret) = None"
proof (induction refs arbitrary: s ret)
  case Nil
  then show ?case by simp
next
  case (Cons c refs)
  show ?case
  proof (cases "getRequiredResource (rrcName c)")
    case None
    then show ?thesis by simp
  next
    case (Some rr)
    with Cons.prems have "\<exists>c\<in>set refs. getRequiredResource (rrcName c) = None" by auto
    from Cons.IH [OF this] Some show ?thesis
      by (simp split: prod.splits)
  qed
qed

text \<open>
  Claim C1. When every resource name the manifest declares is in the static catalog,
  \<open>MissingRequiredResources\<close> returns, in the order of declaration, exactly the catalog
  templates of the declared names whose identifier stored in the profile is empty. In
  particular a profile holding \<open>stripe_samples_price_recurring_basic_id \<mapsto> price_123\<close>
  keeps that name out of the result.
\<close>

theorem MissingRequiredResources_exact:
  assumes "\<forall>c\<in>set (RequiredResources (sampleConfig s)). getRequiredResource (rrcName c) \<noteq> None"
  shows "fst (MissingRequiredResources s) =
           Some [rr \<leftarrow> map (\<lambda>c. the (getRequiredResource (rrcName c)))
                         (RequiredResources (sampleConfig s)).
                 storedID (Profile s) (rrName rr) = '''']
         \<and> (sampleResourceIDs (Profile s) ''stripe_samples_price_recurring_basic_id''
               = Some ''price_123''
            \<longrightarrow> ''stripe_samples_price_recurring_basic_id''
                  \<notin> rrName ` set (elems (fst (MissingRequiredResources s))))"
proof -
  have eq: "fst (MissingRequiredResources s) =
           Some [rr \<leftarrow> map (\<lambda>c. the (getRequiredResource (rrcName c)))
                         (RequiredResources (sampleConfig s)).
                 storedID (Profile s) (rrName rr) = '''']"
    using missingLoop_resolved [OF assms, of s "[]"]
    by (simp add: MissingRequiredResources_def)
  show ?thesis
    unfolding eq by (auto simp: elems_def storedID_def)
qed

theorem MissingRequiredResources_exact_witness:
  "getRequiredResource (rrcName basicRef) \<noteq> None
   \<and> getRequiredResource (rrcName proRef) \<noteq> None
   \<and> sampleResourceIDs ledgerProfile ''stripe_samples_price_recurring_basic_id''
       = Some ''price_123''
   \<and> fst (MissingRequiredResources
        (newSamples ledgerProfile (emptyConfig\<lparr>RequiredResources := [basicRef, proRef]\<rparr>)))
     = Some [requiredResources ! 1]"
proof -
  have h: "\<forall>c\<in>set (RequiredResources (sampleConfig
        (newSamples ledgerProfile (emptyConfig\<lparr>RequiredResources := [basicRef, proRef]\<rparr>)))).
      getRequiredResource (rrcName c) \<noteq> None"
    by (simp add: newSamples_def emptyConfig_def basicRef_def proRef_def
        getRequiredResource_basic getRequiredResource_pro)
  show ?thesis
    using MissingRequiredResources_exact [OF h]
    by (simp add: newSamples_def emptyConfig_def basicRef_def proRef_def ledgerProfile_def
        getRequiredResource_basic getRequiredResource_pro storedID_def requiredResources_def)
qed

text \<open>
  Claim C3. When some declared resource name is not in the static catalog,
  \<open>MissingRequiredResources\<close> returns the nil slice, whatever was found missing before the
  unknown name was reached and however many declared resources have no stored identifier.
\<close>

theorem MissingRequiredResources_unknown_name:
  assumes "\<exists>c\<in>set (RequiredResources (sampleConfig s)). getRequiredResource (rrcName c) = None"
  shows "fst (MissingRequiredResources s) = None
         \<and> elems (fst (MissingRequiredResources s)) = []"
  using missingLoop_unknown [OF assms, of s "[]"]
  by (simp add: MissingRequiredResources_def elems_def)

theorem MissingRequiredResources_unknown_name_witness:
  "getRequiredResource (rrcName unknownRef) = None
   \<and> storedID emptyProfile (rrcName basicRef) = ''''
   \<and> storedID emptyProfile (rrcName proRef) = ''''
   \<and> fst (MissingRequiredResources
        (newSamples emptyProfile
           (emptyConfig\<lparr>RequiredResources := [basicRef, proRef, unknownRef]\<rparr>))) = None"
proof -
  have h: "\<exists>c\<in>set (RequiredResources (sampleConfig
        (newSamples emptyProfile
           (emptyConfig\<lparr>RequiredResources := [basicRef, proRef, unknownRef]\<rparr>)))).
      getRequiredResource (rrcName c) = None"
    by (simp add: newSamples_def emptyConfig_def unknownRef_def getRequiredResource_unknown)
  show ?thesis
    using MissingRequiredResources_unknown_name [OF h]
    by (simp add: storedID_def emptyProfile_def unknownRef_def getRequiredResource_unknown)
qed

section \<open>Properties of the selection\<close>

lemma grows_refl: "calls s' = calls s \<Longrightarrow> grows P s s'"
  by (simp add: grows_def)

lemma grows_trans: "grows P s s1 \<Longrightarrow> grows P s1 s2 \<Longrightarrow> grows P s s2"
  by (auto simp: grows_def)

lemma grows_mono: "grows P s s' \<Longrightarrow> (\<And>e. P e \<Longrightarrow> Q e) \<Longrightarrow> grows Q s s'"
  by (auto simp: grows_def list_all_iff)

lemma grows_callsSince: "grows P s s' \<Longrightarrow> list_all P (callsSince s s')"
  by (auto simp: grows_def callsSince_def)

section \<open>What each block of the selection calls and changes\<close>

lemma selectOptions_eq:
  "selectOptions w s t l items =
     (case promptRun w (calls s) t l items of Inl err \<Rightarrow> '''' | Inr r \<Rightarrow> r,
      case promptRun w (calls s) t l items of Inl err \<Rightarrow> Some err | Inr r \<Rightarrow> None,
      emit (SelectRun t l items) s)"
  by (simp add: selectOptions_def call_def split: sum.splits)

lemma clientSelectPrompt_eq:
  "clientSelectPrompt w s cs =
     (case promptRun w (calls s) ''client'' ''Which client would you like to use'' cs of
        Inl err \<Rightarrow> '''' | Inr r \<Rightarrow> r,
      case promptRun w (calls s) ''client'' ''Which client would you like to use'' cs of
        Inl err \<Rightarrow> Some err | Inr r \<Rightarrow> None,
      emit (SelectRun ''client'' ''Which client would you like to use'' cs) s)"
  by (simp add: clientSelectPrompt_def selectOptions_eq split: sum.splits)

lemma serverSelectPrompt_eq:
  "serverSelectPrompt w s cs =
     (case promptRun w (calls s) ''server'' ''What server would you like to use'' cs of
        Inl err \<Rightarrow> '''' | Inr r \<Rightarrow> r,
      case promptRun w (calls s) ''server'' ''What server would you like to use'' cs of
        Inl err \<Rightarrow> Some err | Inr r \<Rightarrow> None,
      emit (SelectRun ''server'' ''What server would you like to use'' cs) s)"
  by (simp add: serverSelectPrompt_def selectOptions_eq split: sum.splits)

lemma integrationSelectPrompt_state:
  "snd (snd (integrationSelectPrompt w s sc)) =
     emit (SelectRun ''integration'' ''What type of integration would you like to use''
             (integrationNames sc)) s"
  by (simp add: integrationSelectPrompt_def selectOptions_eq split: sum.splits)

lemma shouldCreate_state:
  "snd (snd (shouldCreateRequiredResourcesPrompt w s ds)) =
     emit (SelectRun ''auto-create behavior''
             ''Would you like us to automatically create these and configure their IDs?''
             [''yes'', ''no''])
       (emit (Printf (''This Stripe Sample requires a few pre-existing resources to exist in test mode on your Stripe Account:''
                 @ newline @ ''  * '' @ stringsJoin ds (newline @ ''  * '') @ newline)) s)"
  by (simp add: shouldCreateRequiredResourcesPrompt_def selectOptions_eq Let_def split: sum.splits)

lemma provisioned_refl: "provisioned s s"
  by (simp add: provisioned_def grows_def sameSelection_def)

lemma provisioned_trans: "provisioned s s1 \<Longrightarrow> provisioned s1 s2 \<Longrightarrow> provisioned s s2"
  by (auto simp: provisioned_def sameSelection_def intro: grows_trans)

lemma provisioned_emit: "provisionEvent e \<Longrightarrow> provisioned s (emit e s)"
  by (simp add: provisioned_def grows_def sameSelection_def emit_def)

lemma provisioned_Get: "provisioned s (snd (GetStripeSampleResourceID s n))"
  by (simp add: GetStripeSampleResourceID_def provisioned_emit)

lemma provisioned_missingLoop: "provisioned s (snd (missingLoop s refs ret))"
proof (induction refs arbitrary: s ret)
  case Nil
  show ?case by (simp add: provisioned_refl)
next
  case (Cons c refs)
  show ?case
  proof (cases "getRequiredResource (rrcName c)")
    case None
    then show ?thesis by (simp add: provisioned_refl)
  next
    case (Some rr)
    obtain ident s' where g: "GetStripeSampleResourceID s (rrName rr) = (ident, s')"
      by (cases "GetStripeSampleResourceID s (rrName rr)")
    have "provisioned s s'"
      using provisioned_Get [of s "rrName rr"] g by simp
    then show ?thesis
      using Some g Cons.IH [of s'] by (auto intro: provisioned_trans)
  qed
qed

lemma provisioned_shouldCreate:
  "provisioned s (snd (snd (shouldCreateRequiredResourcesPrompt w s ds)))"
  unfolding shouldCreate_state
  by (rule provisioned_trans [OF provisioned_emit provisioned_emit]) simp_all

lemma provisioned_Create: "provisioned s (snd (snd (CreateRequiredResource w s n)))"
proof (cases "getRequiredResource n")
  case None
  then show ?thesis by (simp add: CreateRequiredResource_def provisioned_refl)
next
  case (Some rr)
  have a: "provisioned s (emit (GetAPIKeyCall False) s)"
    by (simp add: provisioned_emit)
  have b: "provisioned s (emit (MakeRequestCall k (httpPath rr) (data rr)) (emit (GetAPIKeyCall False) s))" for k
    by (rule provisioned_trans [OF a provisioned_emit]) simp
  show ?thesis
    using Some a b
    by (simp add: CreateRequiredResource_def call_def
        split: sum.splits option.splits goval.splits)
qed

lemma provisioned_Persist: "provisioned s (snd (PersistRequiredResourceID s n v))"
  by (simp add: PersistRequiredResourceID_def WriteConfigField_def SetStripeSampleResourceID_def
      provisioned_def grows_def sameSelection_def emit_def)

lemma provisioned_createLoop: "provisioned s (snd (createLoop w s rs))"
proof (induction rs arbitrary: s)
  case Nil
  show ?case by (simp add: provisioned_refl)
next
  case (Cons r rs)
  obtain ident err s' where c: "CreateRequiredResource w s (rrName r) = (ident, err, s')"
    by (cases "CreateRequiredResource w s (rrName r)")
  have p1: "provisioned s s'"
    using provisioned_Create [of s w "rrName r"] c by simp
  show ?case
  proof (cases err)
    case (Some e)
    with c p1 show ?thesis by simp
  next
    case None
    have "provisioned s' (snd (PersistRequiredResourceID s' (rrName r) ident))"
      by (rule provisioned_Persist)
    from provisioned_trans [OF p1 this] Cons.IH c None show ?thesis
      by (auto intro: provisioned_trans)
  qed
qed

lemma provisioned_provision: "provisioned s (snd (provision w s))"
proof -
  obtain missing s1 where m: "MissingRequiredResources s = (missing, s1)"
    by (cases "MissingRequiredResources s")
  have p1: "provisioned s s1"
    using provisioned_missingLoop [of s "RequiredResources (sampleConfig s)" "[]"] m
    by (simp add: MissingRequiredResources_def)
  obtain sc err s2 where q:
    "shouldCreateRequiredResourcesPrompt w s1 (map description (elems missing)) = (sc, err, s2)"
    by (cases "shouldCreateRequiredResourcesPrompt w s1 (map description (elems missing))")
  have p2: "provisioned s1 s2"
    using provisioned_shouldCreate [of s1 w "map description (elems missing)"] q by simp
  have p3: "provisioned s2 (snd (createLoop w s2 (elems missing)))"
    by (rule provisioned_createLoop)
  show ?thesis
    using m q p1 provisioned_trans [OF p1 p2] provisioned_trans [OF provisioned_trans [OF p1 p2] p3]
    by (simp add: provision_def split: option.splits)
qed

lemma selectClient_eq:
  "integration s = Some i \<Longrightarrow>
   selectClient w s =
     (if hasMultipleClients i then
        (case promptRun w (calls s) ''client'' ''Which client would you like to use'' (Clients i) of
           Inl err \<Rightarrow> (Some (Return None), (emit (clientPrompt i) s)\<lparr>client := ''''\<rparr>)
         | Inr c \<Rightarrow> (None, (emit (clientPrompt i) s)\<lparr>client := c\<rparr>))
      else (None, s\<lparr>client := ''''\<rparr>))"
  by (simp add: selectClient_def clientSelectPrompt_eq clientPrompt_def split: sum.splits)

lemma selectServer_eq:
  "integration s = Some i \<Longrightarrow>
   selectServer w s =
     (if hasMultipleServers i then
        (case promptRun w (calls s) ''server'' ''What server would you like to use'' (Servers i) of
           Inl err \<Rightarrow> (Some (Return (Some err)), (emit (serverPrompt i) s)\<lparr>server := ''''\<rparr>)
         | Inr v \<Rightarrow> (None, (emit (serverPrompt i) s)\<lparr>server := v\<rparr>))
      else (None, s\<lparr>server := ''''\<rparr>))"
  by (simp add: selectServer_def serverSelectPrompt_eq serverPrompt_def split: sum.splits)

lemma selectClient_nil: "integration s = None \<Longrightarrow> selectClient w s = (Some (Panic nilDereference), s)"
  by (simp add: selectClient_def)

lemma selectServer_nil: "integration s = None \<Longrightarrow> selectServer w s = (Some (Panic nilDereference), s)"
  by (simp add: selectServer_def)

lemma selectIntegration_sole:
  "length (Integrations (sampleConfig s)) = 1 \<Longrightarrow>
   selectIntegration w s = (None, s\<lparr>integration := Some (hd (Integrations (sampleConfig s)))\<rparr>)"
  by (cases "Integrations (sampleConfig s)") (simp_all add: selectIntegration_def hasIntegrations_def)

lemma selectIntegration_quiet:
  "\<not> length (Integrations (sampleConfig s)) > 1 \<Longrightarrow> calls (snd (selectIntegration w s)) = calls s"
  by (simp add: selectIntegration_def hasIntegrations_def split: list.splits)

lemma selectIntegration_state:
  "length (Integrations (sampleConfig s)) > 1 \<Longrightarrow>
   snd (selectIntegration w s) =
     (emit (integrationPrompt (sampleConfig s)) s)
       \<lparr>integration := fst (integrationSelectPrompt w s (sampleConfig s))\<rparr>"
  using integrationSelectPrompt_state [of w s "sampleConfig s"]
  by (auto simp: selectIntegration_def hasIntegrations_def integrationPrompt_def
      split: prod.splits option.splits)

lemma selectIntegration_frame:
  "client (snd (selectIntegration w s)) = client s \<and> server (snd (selectIntegration w s)) = server s
   \<and> Profile (snd (selectIntegration w s)) = Profile s
   \<and> sampleConfig (snd (selectIntegration w s)) = sampleConfig s"
proof (cases "length (Integrations (sampleConfig s)) > 1")
  case True
  then show ?thesis by (simp add: selectIntegration_state emit_def)
next
  case False
  then show ?thesis
    by (simp add: selectIntegration_def hasIntegrations_def split: list.splits)
qed

lemma selectIntegration_grows:
  "grows (isPrompt ''integration'') s (snd (selectIntegration w s))"
proof (cases "length (Integrations (sampleConfig s)) > 1")
  case True
  then show ?thesis
    by (simp add: selectIntegration_state grows_def emit_def integrationPrompt_def)
next
  case False
  then show ?thesis by (simp add: selectIntegration_quiet grows_refl)
qed

lemma selectClient_grows:
  "grows (isPrompt ''client'') s (snd (selectClient w s))
   \<and> integration (snd (selectClient w s)) = integration s"
proof (cases "integration s")
  case None
  then show ?thesis by (simp add: selectClient_nil grows_refl)
next
  case (Some i)
  then show ?thesis
    by (simp add: selectClient_eq grows_def emit_def clientPrompt_def split: sum.splits)
qed

lemma selectServer_grows:
  "grows (isPrompt ''server'') s (snd (selectServer w s))
   \<and> integration (snd (selectServer w s)) = integration s"
proof (cases "integration s")
  case None
  then show ?thesis by (simp add: selectServer_nil grows_refl)
next
  case (Some i)
  then show ?thesis
    by (simp add: selectServer_eq grows_def emit_def serverPrompt_def split: sum.splits)
qed

lemma provision_grows:
  "grows provisionEvent s (snd (provision w s))
   \<and> integration (snd (provision w s)) = integration s
   \<and> client (snd (provision w s)) = client s
   \<and> server (snd (provision w s)) = server s"
  using provisioned_provision [of s w] by (simp add: provisioned_def sameSelection_def)

lemma serverOnward_grows:
  "selectServer w s2 = (r3, s3) \<Longrightarrow>
   s' = snd (case r3 of Some out \<Rightarrow> (out, s3) | None \<Rightarrow> provision w s3) \<Longrightarrow>
   grows laterEvent s2 s' \<and> integration s' = integration s2 \<and> client s' = client s2"
proof -
  assume a: "selectServer w s2 = (r3, s3)"
    and b: "s' = snd (case r3 of Some out \<Rightarrow> (out, s3) | None \<Rightarrow> provision w s3)"
  have g3: "grows laterEvent s2 s3" and i3: "integration s3 = integration s2"
    using selectServer_grows [of s2 w] a by (auto intro: grows_mono simp: laterEvent_def)
  have c3: "client s3 = client s2"
    using a by (cases "integration s2")
      (auto simp: selectServer_nil selectServer_eq emit_def split: if_splits sum.splits)
  have g4: "grows laterEvent s3 (snd (provision w s3))"
    using provision_grows [of s3 w] by (auto intro: grows_mono simp: laterEvent_def)
  show ?thesis
    using b g3 i3 c3 g4 provision_grows [of s3 w]
    by (cases r3) (auto intro: grows_trans)
qed

lemma SelectOptions_split:
  "SelectOptions w s =
     (case selectIntegration w s of
        (Some out, s1) \<Rightarrow> (out, s1)
      | (None, s1) \<Rightarrow>
          (case selectClient w s1 of
             (Some out, s2) \<Rightarrow> (out, s2)
           | (None, s2) \<Rightarrow>
               (case selectServer w s2 of
                  (r3, s3) \<Rightarrow> (case r3 of Some out \<Rightarrow> (out, s3) | None \<Rightarrow> provision w s3))))"
  by (simp add: SelectOptions_def split: prod.splits option.splits)

lemma SelectOptions_later:
  "grows laterEvent (snd (selectIntegration w s)) (snd (SelectOptions w s))
   \<and> integration (snd (SelectOptions w s)) = integration (snd (selectIntegration w s))"
proof -
  obtain r1 s1 where a: "selectIntegration w s = (r1, s1)" by (cases "selectIntegration w s")
  obtain r2 s2 where b: "selectClient w s1 = (r2, s2)" by (cases "selectClient w s1")
  obtain r3 s3 where c: "selectServer w s2 = (r3, s3)" by (cases "selectServer w s2")
  have g2: "grows laterEvent s1 s2" and i2: "integration s2 = integration s1"
    using selectClient_grows [of s1 w] b by (auto intro: grows_mono simp: laterEvent_def)
  note on = serverOnward_grows [OF c refl]
  show ?thesis
  proof (cases r1)
    case (Some out)
    with a show ?thesis by (simp add: SelectOptions_split grows_refl)
  next
    case None
    show ?thesis
    proof (cases r2)
      case (Some out)
      with a b None g2 i2 show ?thesis by (simp add: SelectOptions_split)
    next
      case N2: None
      from a b c None N2 g2 i2 on show ?thesis
        by (auto simp: SelectOptions_split intro: grows_trans)
    qed
  qed
qed

lemma laterEvent_not_integration: "laterEvent e \<Longrightarrow> isPrompt ''integration'' e \<Longrightarrow> False"
  by (cases e) (auto simp: laterEvent_def)

lemma callsSince_same: "calls s1 = calls s \<Longrightarrow> callsSince s s' = callsSince s1 s'"
  by (simp add: callsSince_def)

text \<open>
  Claim C4. For a manifest with exactly one integration, \<open>SelectOptions\<close> selects that
  integration and never shows the integration prompt, whatever happens afterwards; and
  whenever the integration prompt is shown, the manifest has more than one integration.
\<close>

theorem SelectOptions_sole_integration:
  "(length (Integrations (sampleConfig s)) = 1 \<longrightarrow>
      integration (snd (SelectOptions w s)) = Some (hd (Integrations (sampleConfig s)))
      \<and> \<not> list_ex (isPrompt ''integration'') (callsSince s (snd (SelectOptions w s))))
   \<and> (list_ex (isPrompt ''integration'') (callsSince s (snd (SelectOptions w s))) \<longrightarrow>
        length (Integrations (sampleConfig s)) > 1)"
proof -
  have quiet: "\<not> list_ex (isPrompt ''integration'') (callsSince s (snd (SelectOptions w s)))"
    if "\<not> length (Integrations (sampleConfig s)) > 1"
  proof -
    have "calls (snd (selectIntegration w s)) = calls s"
      using that by (rule selectIntegration_quiet)
    then have "callsSince s (snd (SelectOptions w s))
               = callsSince (snd (selectIntegration w s)) (snd (SelectOptions w s))"
      by (rule callsSince_same)
    moreover have "list_all laterEvent (callsSince (snd (selectIntegration w s)) (snd (SelectOptions w s)))"
      using SelectOptions_later [of w s] by (simp add: grows_callsSince)
    ultimately show ?thesis
      by (auto simp: list_all_iff list_ex_iff; blast dest: laterEvent_not_integration)
  qed
  have sole: "integration (snd (SelectOptions w s)) = Some (hd (Integrations (sampleConfig s)))"
    if "length (Integrations (sampleConfig s)) = 1"
    using SelectOptions_later [of w s] selectIntegration_sole [OF that, of w] by simp
  show ?thesis
    using quiet sole by auto
qed

lemma serverOnward_exact:
  assumes i: "integration s2 = Some i"
    and S: "S = snd (case selectServer w s2 of
                       (r3, s3) \<Rightarrow> (case r3 of Some out \<Rightarrow> (out, s3) | None \<Rightarrow> provision w s3))"
  shows "client S = client s2
     \<and> (if hasMultipleServers i then
          (\<exists>rest. calls S = calls s2 @ serverPrompt i # rest \<and> list_all provisionEvent rest)
          \<and> (\<forall>v. promptRun w (calls s2) ''server'' ''What server would you like to use''
                     (Servers i) = Inr v \<longrightarrow> server S = v)
        else server S = '''' \<and> (\<exists>rest. calls S = calls s2 @ rest \<and> list_all provisionEvent rest))"
proof (cases "hasMultipleServers i")
  case False
  have S': "S = snd (provision w (s2\<lparr>server := ''''\<rparr>))"
    using S False by (simp add: selectServer_eq [OF i])
  show ?thesis
    using False provision_grows [of "s2\<lparr>server := ''''\<rparr>" w]
    by (simp add: S' grows_def)
next
  case True
  show ?thesis
  proof (cases "promptRun w (calls s2) ''server'' ''What server would you like to use'' (Servers i)")
    case (Inl err)
    have "S = (emit (serverPrompt i) s2)\<lparr>server := ''''\<rparr>"
      using S True Inl by (simp add: selectServer_eq [OF i])
    then show ?thesis using True Inl by (simp add: emit_def)
  next
    case (Inr v)
    have S': "S = snd (provision w ((emit (serverPrompt i) s2)\<lparr>server := v\<rparr>))"
      using S True Inr by (simp add: selectServer_eq [OF i])
    show ?thesis
      using True Inr provision_grows [of "(emit (serverPrompt i) s2)\<lparr>server := v\<rparr>" w]
      by (auto simp: S' grows_def emit_def)
  qed
qed

lemma provisionEvent_final: "list_all provisionEvent rest \<Longrightarrow> list_all finalEvent rest"
  by (simp add: list_all_iff finalEvent_def)

lemma serverOnward_final:
  assumes i: "integration s2 = Some i"
    and S: "S = snd (case selectServer w s2 of
                       (r3, s3) \<Rightarrow> (case r3 of Some out \<Rightarrow> (out, s3) | None \<Rightarrow> provision w s3))"
  shows "\<exists>rest. calls S = calls s2 @ rest \<and> list_all finalEvent rest"
proof (cases "hasMultipleServers i")
  case True
  then obtain rest where "calls S = calls s2 @ serverPrompt i # rest" "list_all provisionEvent rest"
    using serverOnward_exact [OF i S] by auto
  then have "calls S = calls s2 @ (serverPrompt i # rest) \<and> list_all finalEvent (serverPrompt i # rest)"
    by (simp add: provisionEvent_final) (simp add: finalEvent_def serverPrompt_def)
  then show ?thesis by blast
next
  case False
  then show ?thesis
    using serverOnward_exact [OF i S] by (auto intro: provisionEvent_final)
qed

lemma clientOnward_exact:
  assumes i: "integration s1 = Some i"
    and S: "S = snd (case selectClient w s1 of
                (Some out, s2) \<Rightarrow> (out, s2)
              | (None, s2) \<Rightarrow>
                  (case selectServer w s2 of
                     (r3, s3) \<Rightarrow> (case r3 of Some out \<Rightarrow> (out, s3) | None \<Rightarrow> provision w s3)))"
  shows "if hasMultipleClients i then
          (\<exists>rest. calls S = calls s1 @ clientPrompt i # rest \<and> list_all finalEvent rest)
          \<and> (\<forall>c. promptRun w (calls s1) ''client'' ''Which client would you like to use''
                     (Clients i) = Inr c \<longrightarrow> client S = c)
        else client S = '''' \<and> (\<exists>rest. calls S = calls s1 @ rest \<and> list_all finalEvent rest)"
proof (cases "hasMultipleClients i")
  case False
  have i2: "integration (s1\<lparr>client := ''''\<rparr>) = Some i" using i by simp
  have S': "S = snd (case selectServer w (s1\<lparr>client := ''''\<rparr>) of
                       (r3, s3) \<Rightarrow> (case r3 of Some out \<Rightarrow> (out, s3) | None \<Rightarrow> provision w s3))"
    using S False by (simp add: selectClient_eq [OF i])
  show ?thesis
    using False serverOnward_exact [OF i2 S'] serverOnward_final [OF i2 S'] by simp
next
  case True
  show ?thesis
  proof (cases "promptRun w (calls s1) ''client'' ''Which client would you like to use'' (Clients i)")
    case (Inl err)
    have "S = (emit (clientPrompt i) s1)\<lparr>client := ''''\<rparr>"
      using S True Inl by (simp add: selectClient_eq [OF i])
    then show ?thesis using True Inl by (simp add: emit_def)
  next
    case (Inr c)
    have i2: "integration ((emit (clientPrompt i) s1)\<lparr>client := c\<rparr>) = Some i"
      using i by (simp add: emit_def)
    have S': "S = snd (case selectServer w ((emit (clientPrompt i) s1)\<lparr>client := c\<rparr>) of
                       (r3, s3) \<Rightarrow> (case r3 of Some out \<Rightarrow> (out, s3) | None \<Rightarrow> provision w s3))"
      using S True Inr by (simp add: selectClient_eq [OF i])
    show ?thesis
      using True Inr serverOnward_exact [OF i2 S'] serverOnward_final [OF i2 S']
      by (auto simp: emit_def)
  qed
qed

lemma SelectOptions_resolved:
  "selectIntegration w s = (None, s1) \<Longrightarrow>
   snd (SelectOptions w s) =
     snd (case selectClient w s1 of
            (Some out, s2) \<Rightarrow> (out, s2)
          | (None, s2) \<Rightarrow>
              (case selectServer w s2 of
                 (r3, s3) \<Rightarrow> (case r3 of Some out \<Rightarrow> (out, s3) | None \<Rightarrow> provision w s3)))"
  by (simp add: SelectOptions_split)

lemma SelectOptions_client_resolved:
  "selectIntegration w s = (None, s1) \<Longrightarrow> selectClient w s1 = (None, s2) \<Longrightarrow>
   snd (SelectOptions w s) =
     snd (case selectServer w s2 of
            (r3, s3) \<Rightarrow> (case r3 of Some out \<Rightarrow> (out, s3) | None \<Rightarrow> provision w s3))"
  by (simp add: SelectOptions_split)

lemma finalEvent_not_client: "finalEvent e \<Longrightarrow> isPrompt ''client'' e \<Longrightarrow> False"
  by (cases e) (auto simp: finalEvent_def)

lemma provisionEvent_not_server: "provisionEvent e \<Longrightarrow> isPrompt ''server'' e \<Longrightarrow> False"
  by (cases e) auto

lemma integration_not_client: "isPrompt ''integration'' e \<Longrightarrow> isPrompt ''client'' e \<Longrightarrow> False"
  by (cases e) auto

lemma integration_not_server: "isPrompt ''integration'' e \<Longrightarrow> isPrompt ''server'' e \<Longrightarrow> False"
  by (cases e) auto

lemma client_not_server: "isPrompt ''client'' e \<Longrightarrow> isPrompt ''server'' e \<Longrightarrow> False"
  by (cases e) auto

text \<open>
  Claim C5, amended. Let the integration be resolved to \<open>i\<close>. Client axis: with more
  than one client the client prompt is shown with the clients of \<open>i\<close> and its answer is
  the selection; with at most one client (exactly one, or none) no client prompt is shown
  and the selection is the empty string. Server axis, when the client block did not end
  the call: the same with the servers of \<open>i\<close>.
\<close>

theorem SelectOptions_axes:
  assumes r: "selectIntegration w s = (None, s1)"
    and i: "integration s1 = Some i"
  shows "(hasMultipleClients i \<longrightarrow>
            clientPrompt i \<in> set (callsSince s (snd (SelectOptions w s)))
            \<and> (\<forall>c. promptRun w (calls s1) ''client'' ''Which client would you like to use''
                      (Clients i) = Inr c \<longrightarrow> client (snd (SelectOptions w s)) = c))
       \<and> (\<not> hasMultipleClients i \<longrightarrow>
            client (snd (SelectOptions w s)) = ''''
            \<and> \<not> list_ex (isPrompt ''client'') (callsSince s (snd (SelectOptions w s))))
       \<and> (\<forall>s2. selectClient w s1 = (None, s2) \<longrightarrow>
            (hasMultipleServers i \<longrightarrow>
               serverPrompt i \<in> set (callsSince s (snd (SelectOptions w s)))
               \<and> (\<forall>v. promptRun w (calls s2) ''server'' ''What server would you like to use''
                         (Servers i) = Inr v \<longrightarrow> server (snd (SelectOptions w s)) = v))
            \<and> (\<not> hasMultipleServers i \<longrightarrow>
                 server (snd (SelectOptions w s)) = ''''
                 \<and> \<not> list_ex (isPrompt ''server'') (callsSince s (snd (SelectOptions w s)))))"
proof -
  let ?S = "snd (SelectOptions w s)"
  obtain A where A: "calls s1 = calls s @ A" "list_all (isPrompt ''integration'') A"
    using selectIntegration_grows [of s w] r by (auto simp: grows_def)
  note c = clientOnward_exact [OF i SelectOptions_resolved [OF r]]
  have client_many: "clientPrompt i \<in> set (callsSince s ?S)
      \<and> (\<forall>c. promptRun w (calls s1) ''client'' ''Which client would you like to use''
                (Clients i) = Inr c \<longrightarrow> client ?S = c)"
    if "hasMultipleClients i"
    using c that A by (auto simp: callsSince_def)
  have client_few: "client ?S = '''' \<and> \<not> list_ex (isPrompt ''client'') (callsSince s ?S)"
    if "\<not> hasMultipleClients i"
    using c that A
    by (auto simp: callsSince_def list_all_iff list_ex_iff;
        blast dest: finalEvent_not_client integration_not_client)
  have server_axis:
    "(hasMultipleServers i \<longrightarrow>
        serverPrompt i \<in> set (callsSince s ?S)
        \<and> (\<forall>v. promptRun w (calls s2) ''server'' ''What server would you like to use''
                  (Servers i) = Inr v \<longrightarrow> server ?S = v))
     \<and> (\<not> hasMultipleServers i \<longrightarrow>
          server ?S = '''' \<and> \<not> list_ex (isPrompt ''server'') (callsSince s ?S))"
    if sc: "selectClient w s1 = (None, s2)" for s2
  proof -
    have i2: "integration s2 = Some i"
      using selectClient_grows [of s1 w] sc i by simp
    obtain B where B: "calls s2 = calls s1 @ B" "list_all (isPrompt ''client'') B"
      using selectClient_grows [of s1 w] sc by (auto simp: grows_def)
    note d = serverOnward_exact [OF i2 SelectOptions_client_resolved [OF r sc]]
    show ?thesis
      using d A B
      by (auto simp: callsSince_def list_all_iff list_ex_iff;
          blast dest: provisionEvent_not_server integration_not_server client_not_server)
  qed
  show ?thesis
    using client_many client_few server_axis by blast
qed

text \<open>
  Claim C10. When the resolved integration has more than one client and the client prompt
  returns an error, \<open>SelectOptions\<close> returns \<open>nil\<close> at once: the error is dropped, the
  server selection and the profile are left as they were, the client prompt is the last
  call made, and neither the server prompt nor any call of the gap check or of the
  provisioning is made.
\<close>

theorem SelectOptions_client_prompt_error:
  assumes r: "selectIntegration w s = (None, s1)"
    and i: "integration s1 = Some i"
    and m: "hasMultipleClients i"
    and e: "promptRun w (calls s1) ''client'' ''Which client would you like to use''
              (Clients i) = Inl err"
  shows "SelectOptions w s = (Return None, (emit (clientPrompt i) s1)\<lparr>client := ''''\<rparr>)
       \<and> server (snd (SelectOptions w s)) = server s
       \<and> Profile (snd (SelectOptions w s)) = Profile s
       \<and> callsSince s1 (snd (SelectOptions w s)) = [clientPrompt i]
       \<and> \<not> list_ex (isPrompt ''server'') (callsSince s (snd (SelectOptions w s)))
       \<and> \<not> list_ex provisionEvent (callsSince s (snd (SelectOptions w s)))"
proof -
  have eq: "SelectOptions w s = (Return None, (emit (clientPrompt i) s1)\<lparr>client := ''''\<rparr>)"
    using r m e by (simp add: SelectOptions_def selectClient_eq [OF i])
  obtain A where A: "calls s1 = calls s @ A" "list_all (isPrompt ''integration'') A"
    using selectIntegration_grows [of s w] r by (auto simp: grows_def)
  have fr: "server s1 = server s" "Profile s1 = Profile s"
    using selectIntegration_frame [of w s] r by simp_all
  have notprov: "False" if "isPrompt ''integration'' ev" "provisionEvent ev" for ev
    using that by (cases ev) auto
  show ?thesis
    unfolding eq using A fr
    by (auto simp: emit_def callsSince_def clientPrompt_def list_all_iff list_ex_iff;
        blast dest: integration_not_server notprov)
qed

text \<open>
  Claim C8. With an integration chosen, \<open>ConfigureDotEnv\<close> returns \<open>nil\<close> and leaves the
  whole state as it was, the record of calls included (no file is opened, no collaborator
  is reached, nothing is written), whenever the manifest's \<open>configureDotEnv\<close> flag is
  false, also when the integration has servers, and whenever the integration has no server.
\<close>

theorem ConfigureDotEnv_noop:
  assumes "integration s = Some i"
    and "\<not> configureDotEnv (sampleConfig s) \<or> \<not> hasServers i"
  shows "ConfigureDotEnv w s sampleLocation = (Return None, s)"
  using assms by (auto simp: ConfigureDotEnv_def)

theorem ConfigureDotEnv_noop_witness:
  "hasServers webNode \<and> 
   ConfigureDotEnv idleWorld ((newSamples emptyProfile emptyConfig)\<lparr>integration := Some webNode\<rparr>) ''/out''
     = (Return None, (newSamples emptyProfile emptyConfig)\<lparr>integration := Some webNode\<rparr>)"
proof -
  have a: "integration ((newSamples emptyProfile emptyConfig)\<lparr>integration := Some webNode\<rparr>) = Some webNode"
    by simp
  have b: "\<not> configureDotEnv (sampleConfig ((newSamples emptyProfile emptyConfig)\<lparr>integration := Some webNode\<rparr>)) \<or> \<not> hasServers webNode"
    by (simp add: newSamples_def emptyConfig_def)
  show ?thesis
    using ConfigureDotEnv_noop [OF a b, of idleWorld "''/out''"]
    by (simp add: hasServers_def webNode_def)
qed

text \<open>
  Claim C9 (the behaviour of the code). For a manifest with no integration,
  \<open>SelectOptions\<close> does not return an error: taking the first element of the empty list
  panics, before anything is selected or called.
\<close>

theorem SelectOptions_no_integrations:
  "SelectOptions w (s\<lparr>sampleConfig := (sampleConfig s)\<lparr>Integrations := []\<rparr>\<rparr>)
     = (Panic ''runtime error: index out of range [0] with length 0'',
        s\<lparr>sampleConfig := (sampleConfig s)\<lparr>Integrations := []\<rparr>\<rparr>)"
  by (simp add: SelectOptions_def selectIntegration_def hasIntegrations_def)

theorem SelectOptions_sole_integration_witness:
  "length (Integrations (sampleConfig oneClientSamples)) = 1
   \<and> integration (snd (SelectOptions idleWorld oneClientSamples)) = Some webNodeRuby
   \<and> \<not> list_ex (isPrompt ''integration'')
          (callsSince oneClientSamples (snd (SelectOptions idleWorld oneClientSamples)))"
proof -
  have h: "length (Integrations (sampleConfig oneClientSamples)) = 1"
    by (simp add: oneClientSamples_def newSamples_def emptyConfig_def)
  show ?thesis
    using h SelectOptions_sole_integration [of oneClientSamples idleWorld]
    by (simp add: oneClientSamples_def newSamples_def emptyConfig_def)
qed

lemma oneClient_integration:
  "selectIntegration idleWorld oneClientSamples
     = (None, oneClientSamples\<lparr>integration := Some webNodeRuby\<rparr>)"
  by (simp add: selectIntegration_def hasIntegrations_def oneClientSamples_def newSamples_def
      emptyConfig_def)

lemma oneClient_client:
  "selectClient idleWorld (oneClientSamples\<lparr>integration := Some webNodeRuby\<rparr>)
     = (None, oneClientSamples\<lparr>integration := Some webNodeRuby, client := ''''\<rparr>)"
  by (simp add: selectClient_def hasMultipleClients_def webNodeRuby_def)

theorem SelectOptions_axes_witness:
  "client (snd (SelectOptions idleWorld oneClientSamples)) = ''''
   \<and> server (snd (SelectOptions idleWorld oneClientSamples)) = ''node''
   \<and> serverPrompt webNodeRuby
       \<in> set (callsSince oneClientSamples (snd (SelectOptions idleWorld oneClientSamples)))"
proof -
  have i: "integration (oneClientSamples\<lparr>integration := Some webNodeRuby\<rparr>) = Some webNodeRuby"
    by simp
  have c: "\<not> hasMultipleClients webNodeRuby" and v: "hasMultipleServers webNodeRuby"
    by (simp_all add: hasMultipleClients_def hasMultipleServers_def webNodeRuby_def)
  have a: "promptRun idleWorld
             (calls (oneClientSamples\<lparr>integration := Some webNodeRuby, client := ''''\<rparr>))
             ''server'' ''What server would you like to use'' (Servers webNodeRuby) = Inr ''node''"
    by (simp add: idleWorld_def webNodeRuby_def)
  show ?thesis
    using SelectOptions_axes [OF oneClient_integration i] c v a oneClient_client
    by simp
qed

text \<open>
  Claim C5 as stated fails: an integration whose only client is \<open>web\<close> leaves the client
  selection empty, it does not select \<open>web\<close>.
\<close>

theorem SelectOptions_single_client_counterexample:
  "Clients webNodeRuby = [''web'']
   \<and> integration (snd (SelectOptions idleWorld oneClientSamples)) = Some webNodeRuby
   \<and> client (snd (SelectOptions idleWorld oneClientSamples)) \<noteq> ''web''"
proof -
  have p: "provision idleWorld
             (oneClientSamples\<lparr>integration := Some webNodeRuby, client := '''',
                calls := [serverPrompt webNodeRuby], server := ''node''\<rparr>)
           = (Return None, oneClientSamples\<lparr>integration := Some webNodeRuby, client := '''',
                calls := [serverPrompt webNodeRuby], server := ''node''\<rparr>)"
    by (simp add: provision_def MissingRequiredResources_def oneClientSamples_def newSamples_def
        emptyConfig_def elems_def)
  have s: "selectServer idleWorld (oneClientSamples\<lparr>integration := Some webNodeRuby, client := ''''\<rparr>)
           = (None, oneClientSamples\<lparr>integration := Some webNodeRuby, client := '''',
                calls := [serverPrompt webNodeRuby], server := ''node''\<rparr>)"
    by (simp add: selectServer_eq hasMultipleServers_def emit_def)
       (simp add: webNodeRuby_def idleWorld_def oneClientSamples_def newSamples_def emit_def)
  show ?thesis
    by (simp add: SelectOptions_def oneClient_integration oneClient_client s p)
       (simp add: webNodeRuby_def)
qed

lemma twoClient_integration:
  "selectIntegration cancelClientWorld twoClientSamples
     = (None, twoClientSamples\<lparr>integration := Some twoClients\<rparr>)"
  by (simp add: selectIntegration_def hasIntegrations_def twoClientSamples_def newSamples_def
      emptyConfig_def)

theorem SelectOptions_client_prompt_error_witness:
  "fst (SelectOptions cancelClientWorld twoClientSamples) = Return None
   \<and> hasMultipleServers twoClients
   \<and> server (snd (SelectOptions cancelClientWorld twoClientSamples)) = ''''
   \<and> fst (MissingRequiredResources twoClientSamples) = Some [hd requiredResources]
   \<and> callsSince twoClientSamples (snd (SelectOptions cancelClientWorld twoClientSamples))
       = [clientPrompt twoClients]"
proof -
  have i: "integration (twoClientSamples\<lparr>integration := Some twoClients\<rparr>) = Some twoClients"
    by simp
  have m: "hasMultipleClients twoClients"
    by (simp add: hasMultipleClients_def twoClients_def)
  have e: "promptRun cancelClientWorld (calls (twoClientSamples\<lparr>integration := Some twoClients\<rparr>))
             ''client'' ''Which client would you like to use'' (Clients twoClients) = Inl (Err ''^C'')"
    by (simp add: cancelClientWorld_def)
  have g: "fst (MissingRequiredResources twoClientSamples) = Some [hd requiredResources]"
    by (simp add: MissingRequiredResources_def twoClientSamples_def newSamples_def emptyConfig_def
        basicRef_def getRequiredResource_basic GetStripeSampleResourceID_def emptyProfile_def)
  have eq: "SelectOptions cancelClientWorld twoClientSamples =
      (Return None,
       (emit (clientPrompt twoClients) (twoClientSamples\<lparr>integration := Some twoClients\<rparr>))
         \<lparr>client := []\<rparr>)"
    using SelectOptions_client_prompt_error [OF twoClient_integration i m e] by blast
  have v: "hasMultipleServers twoClients"
    by (simp add: hasMultipleServers_def twoClients_def)
  have z: "server twoClientSamples = []" "calls twoClientSamples = []"
    by (simp_all add: twoClientSamples_def newSamples_def)
  show ?thesis
    using g v z by (simp add: eq emit_def callsSince_def)
qed

section \<open>Properties of the repository cache\<close>

text \<open>
  Claim C6. Let the cache folder be resolved and present (\<open>Stat\<close> does not report it
  missing), so that \<open>Initialize\<close> pulls, and let the pull return an error. If the error
  is the already-up-to-date outcome, \<open>Initialize\<close> goes on exactly as the descriptor step
  does after the pull: it reads \<open>.cli.json\<close> and, when the file was read, returns what
  parsing it returns and holds the parsed manifest. Any other pull error is returned as
  it is: the pull is the last call, the descriptor is neither read nor parsed, and the
  manifest held is unchanged.
\<close>

theorem Initialize_pull:
  assumes a: "appCacheFolder w (calls s) app = Inr appPath"
    and b: "Stat w (calls s @ [AppCacheFolderCall app, GetSamplesCall ''create'']) appPath
              \<noteq> StatNotExist"
    and c: "Pull w (calls s @ [AppCacheFolderCall app, GetSamplesCall ''create'',
                               StatCall appPath]) appPath = Some err"
  shows "(err = NoErrAlreadyUpToDate \<longrightarrow>
            Initialize w s app =
              parseConfig w
                (s\<lparr>appName := app, repo := appPath,
                   calls := calls s @ [AppCacheFolderCall app, GetSamplesCall ''create'',
                                       StatCall appPath, PullCall appPath]\<rparr>) appPath
            \<and> ReadFileCall (Join [appPath, ''.cli.json''])
                 \<in> set (callsSince s (snd (Initialize w s app)))
            \<and> (\<forall>configFile.
                  ReadFile w (calls s @ [AppCacheFolderCall app, GetSamplesCall ''create'',
                                         StatCall appPath, PullCall appPath])
                    (Join [appPath, ''.cli.json'']) = Inr configFile \<longrightarrow>
                  fst (Initialize w s app)
                    = Return (fst (unmarshalConfig w configFile (sampleConfig s)))
                  \<and> sampleConfig (snd (Initialize w s app))
                    = snd (unmarshalConfig w configFile (sampleConfig s))))
       \<and> (err \<noteq> NoErrAlreadyUpToDate \<longrightarrow>
            Initialize w s app =
              (Return (Some err),
               s\<lparr>appName := app, repo := appPath,
                  calls := calls s @ [AppCacheFolderCall app, GetSamplesCall ''create'',
                                      StatCall appPath, PullCall appPath]\<rparr>)
            \<and> sampleConfig (snd (Initialize w s app)) = sampleConfig s
            \<and> callsSince s (snd (Initialize w s app))
                = [AppCacheFolderCall app, GetSamplesCall ''create'', StatCall appPath,
                   PullCall appPath])"
proof -
  let ?s3 = "s\<lparr>appName := app, repo := appPath,
               calls := calls s @ [AppCacheFolderCall app, GetSamplesCall ''create'',
                                   StatCall appPath, PullCall appPath]\<rparr>"
  have sync: "syncRepo w (emit (AppCacheFolderCall app) (s\<lparr>appName := app\<rparr>)\<lparr>repo := appPath\<rparr>)
                app appPath
              = (if message err = message NoErrAlreadyUpToDate then None else Some err, ?s3)"
    using b c
    by (cases "Stat w (calls s @ [AppCacheFolderCall app, GetSamplesCall ''create'']) appPath")
       (simp_all add: syncRepo_def call_def emit_def)
  have msg: "(message err = message NoErrAlreadyUpToDate) = (err = NoErrAlreadyUpToDate)"
    by (cases err) (simp add: NoErrAlreadyUpToDate_def)
  have init: "Initialize w s app =
      (if err = NoErrAlreadyUpToDate then parseConfig w ?s3 appPath else (Return (Some err), ?s3))"
    using a sync msg by (simp add: Initialize_def call_def)
  have parse: "ReadFileCall (Join [appPath, ''.cli.json''])
                 \<in> set (callsSince s (snd (parseConfig w ?s3 appPath)))"
    by (simp add: parseConfig_def call_def emit_def callsSince_def split: sum.splits prod.splits)
  have parsed: "fst (parseConfig w ?s3 appPath)
                    = Return (fst (unmarshalConfig w configFile (sampleConfig s)))
                \<and> sampleConfig (snd (parseConfig w ?s3 appPath))
                    = snd (unmarshalConfig w configFile (sampleConfig s))"
    if "ReadFile w (calls s @ [AppCacheFolderCall app, GetSamplesCall ''create'',
                               StatCall appPath, PullCall appPath])
          (Join [appPath, ''.cli.json'']) = Inr configFile" for configFile
    using that by (simp add: parseConfig_def call_def emit_def split: prod.splits)
  show ?thesis
    using parse parsed by (simp add: init callsSince_def)
qed

theorem Initialize_pull_witness:
  "fst (Initialize upToDateWorld (newSamples emptyProfile emptyConfig) ''checkout'') = Return None
   \<and> ReadFileCall ''/cache/checkout/.cli.json''
        \<in> set (calls (snd (Initialize upToDateWorld (newSamples emptyProfile emptyConfig) ''checkout'')))
   \<and> Initialize offlineWorld (newSamples emptyProfile emptyConfig) ''checkout''
        = (Return (Some (Err ''repository not found'')),
           (newSamples emptyProfile emptyConfig)
             \<lparr>appName := ''checkout'', repo := ''/cache/checkout'',
               calls := [AppCacheFolderCall ''checkout'', GetSamplesCall ''create'',
                         StatCall ''/cache/checkout'', PullCall ''/cache/checkout'']\<rparr>)"
proof -
  let ?s = "newSamples emptyProfile emptyConfig"
  have z: "calls ?s = []" by (simp add: newSamples_def)
  have j: "Join [''/cache/checkout'', ''.cli.json''] = ''/cache/checkout/.cli.json''"
    by (simp add: Join_def Clean_def cleanStep_def)
  have a1: "appCacheFolder upToDateWorld (calls ?s) ''checkout'' = Inr ''/cache/checkout''"
    by (simp add: upToDateWorld_def idleWorld_def)
  have b1: "Stat upToDateWorld (calls ?s @ [AppCacheFolderCall ''checkout'', GetSamplesCall ''create''])
              ''/cache/checkout'' \<noteq> StatNotExist"
    by (simp add: upToDateWorld_def idleWorld_def)
  have c1: "Pull upToDateWorld (calls ?s @ [AppCacheFolderCall ''checkout'', GetSamplesCall ''create'',
              StatCall ''/cache/checkout'']) ''/cache/checkout'' = Some NoErrAlreadyUpToDate"
    by (simp add: upToDateWorld_def)
  have r1: "ReadFile upToDateWorld (calls ?s @ [AppCacheFolderCall ''checkout'', GetSamplesCall ''create'',
              StatCall ''/cache/checkout'', PullCall ''/cache/checkout''])
              (Join [''/cache/checkout'', ''.cli.json'']) = Inr ''manifest''"
    by (simp add: upToDateWorld_def idleWorld_def)
  have u1: "unmarshalConfig upToDateWorld ''manifest'' (sampleConfig ?s) = (None, sampleConfig ?s)"
    by (simp add: upToDateWorld_def idleWorld_def)
  have a2: "appCacheFolder offlineWorld (calls ?s) ''checkout'' = Inr ''/cache/checkout''"
    by (simp add: offlineWorld_def idleWorld_def)
  have b2: "Stat offlineWorld (calls ?s @ [AppCacheFolderCall ''checkout'', GetSamplesCall ''create''])
              ''/cache/checkout'' \<noteq> StatNotExist"
    by (simp add: offlineWorld_def idleWorld_def)
  have c2: "Pull offlineWorld (calls ?s @ [AppCacheFolderCall ''checkout'', GetSamplesCall ''create'',
              StatCall ''/cache/checkout'']) ''/cache/checkout'' = Some (Err ''repository not found'')"
    by (simp add: offlineWorld_def)
  have ne: "Err ''repository not found'' \<noteq> NoErrAlreadyUpToDate"
    by (simp add: NoErrAlreadyUpToDate_def)
  have up: "fst (Initialize upToDateWorld ?s ''checkout'') = Return None
     \<and> ReadFileCall ''/cache/checkout/.cli.json''
        \<in> set (calls (snd (Initialize upToDateWorld ?s ''checkout'')))"
  proof -
    have "ReadFileCall (Join [''/cache/checkout'', ''.cli.json''])
            \<in> set (callsSince ?s (snd (Initialize upToDateWorld ?s ''checkout'')))
          \<and> fst (Initialize upToDateWorld ?s ''checkout'')
            = Return (fst (unmarshalConfig upToDateWorld ''manifest'' (sampleConfig ?s)))"
      using Initialize_pull [OF a1 b1 c1] r1 by blast
    then show ?thesis
      using u1 z j by (simp add: callsSince_def)
  qed
  have off: "Initialize offlineWorld ?s ''checkout''
        = (Return (Some (Err ''repository not found'')),
           ?s\<lparr>appName := ''checkout'', repo := ''/cache/checkout'',
               calls := [AppCacheFolderCall ''checkout'', GetSamplesCall ''create'',
                         StatCall ''/cache/checkout'', PullCall ''/cache/checkout'']\<rparr>)"
  proof -
    have "Initialize offlineWorld ?s ''checkout''
        = (Return (Some (Err ''repository not found'')),
           ?s\<lparr>appName := ''checkout'', repo := ''/cache/checkout'',
               calls := calls ?s @ [AppCacheFolderCall ''checkout'', GetSamplesCall ''create'',
                         StatCall ''/cache/checkout'', PullCall ''/cache/checkout'']\<rparr>)"
      using Initialize_pull [OF a2 b2 c2] ne by blast
    then show ?thesis
      using z by simp
  qed
  show ?thesis using up off by simp
qed

section \<open>Properties of the file materializer\<close>





















section \<open>Properties of the provisioner\<close>

lemma CreateRequiredResource_frame:
  "Profile (snd (snd (CreateRequiredResource w s n))) = Profile s
   \<and> grows createEvent s (snd (snd (CreateRequiredResource w s n)))"
  by (simp add: CreateRequiredResource_def call_def emit_def grows_def
      split: option.splits sum.splits goval.splits)

lemma CreateRequiredResource_bad_body:
  assumes "getRequiredResource n = Some rr"
    and "GetAPIKey w (calls s) False = Inr apiKey"
    and "MakeRequest w (calls s @ [GetAPIKeyCall False]) apiKey (httpPath rr) (data rr) = Inr bytes"
    and "\<not> (\<exists>fieldMap ident. unmarshalFields w bytes = Inr fieldMap
                \<and> fieldMap ''id'' = Some (VString ident))"
  shows "fst (snd (CreateRequiredResource w s n)) \<noteq> None"
  using assms
  by (auto simp: CreateRequiredResource_def call_def emit_def
      split: option.splits sum.splits goval.splits)

lemma PersistRequiredResourceID_persisted:
  "persisted (Profile (snd (PersistRequiredResourceID s n v))) n"
  by (simp add: PersistRequiredResourceID_def WriteConfigField_def SetStripeSampleResourceID_def
      emit_def persisted_def)

lemma PersistRequiredResourceID_keeps:
  "persisted (Profile s) m \<Longrightarrow> persisted (Profile (snd (PersistRequiredResourceID s n v))) m"
  by (auto simp: PersistRequiredResourceID_def WriteConfigField_def SetStripeSampleResourceID_def
      emit_def persisted_def split: option.splits)

lemma createLoop_keeps:
  "persisted (Profile s) m \<Longrightarrow> persisted (Profile (snd (createLoop w s rs))) m"
proof (induction rs arbitrary: s)
  case Nil
  then show ?case by simp
next
  case (Cons r rs)
  obtain ident err s' where c: "CreateRequiredResource w s (rrName r) = (ident, err, s')"
    by (metis surj_pair)
  have p: "Profile s' = Profile s"
    using CreateRequiredResource_frame [of w s "rrName r"] c by simp
  show ?case
  proof (cases err)
    case (Some e)
    with c p Cons.prems show ?thesis by simp
  next
    case None
    have "persisted (Profile (snd (PersistRequiredResourceID s' (rrName r) ident))) m"
      using Cons.prems p by (simp add: PersistRequiredResourceID_keeps)
    from Cons.IH [OF this] c None show ?thesis by simp
  qed
qed

lemma createLoop_persisted:
  "createLoop w s pre = (Return None, s1) \<Longrightarrow> \<forall>p\<in>set pre. persisted (Profile s1) (rrName p)"
proof (induction pre arbitrary: s)
  case Nil
  then show ?case by simp
next
  case (Cons r rs)
  obtain ident err s' where c: "CreateRequiredResource w s (rrName r) = (ident, err, s')"
    by (metis surj_pair)
  show ?case
  proof (cases err)
    case (Some e)
    with c Cons.prems show ?thesis by simp
  next
    case None
    let ?s2 = "snd (PersistRequiredResourceID s' (rrName r) ident)"
    have run: "createLoop w ?s2 rs = (Return None, s1)"
      using Cons.prems c None by simp
    have "persisted (Profile (snd (createLoop w ?s2 rs))) (rrName r)"
      by (rule createLoop_keeps) (rule PersistRequiredResourceID_persisted)
    then have "persisted (Profile s1) (rrName r)"
      using run by simp
    with Cons.IH [OF run] show ?thesis by simp
  qed
qed

lemma createLoop_append:
  "createLoop w s pre = (Return None, s1) \<Longrightarrow>
   createLoop w s (pre @ rest) = createLoop w s1 rest"
proof (induction pre arbitrary: s)
  case Nil
  then show ?case by simp
next
  case (Cons r rs)
  obtain ident err s' where c: "CreateRequiredResource w s (rrName r) = (ident, err, s')"
    by (metis surj_pair)
  show ?case
  proof (cases err)
    case (Some e)
    with c Cons.prems show ?thesis by simp
  next
    case None
    with c Cons.prems Cons.IH show ?thesis by simp
  qed
qed

text \<open>
  Claim C2. First: when the API answered and the body does not decode to an object with a
  field \<open>id\<close> holding a string, \<open>CreateRequiredResource\<close> returns an error. Second:
  when the loop has created and recorded the resources \<open>pre\<close> and the creation of the
  next resource \<open>r\<close> fails, the loop returns that error in the state the failed creation
  left, whatever resources \<open>post\<close> were still to come; the failed creation made no write
  to the profile, and every resource of \<open>pre\<close> is in the ledger, in memory and on disk.
  Third: a successful creation is followed at once by the two writes of its identifier,
  and the rest of the loop runs from the state that holds them. Fourth: when the selection
  fell through, resources are missing and the user accepted, \<open>SelectOptions\<close> returns what
  the loop over the missing resources returns.
\<close>

theorem provisioning_stops_at_first_failure:
  "(getRequiredResource n = Some rr
      \<and> GetAPIKey w (calls s) False = Inr apiKey
      \<and> MakeRequest w (calls s @ [GetAPIKeyCall False]) apiKey (httpPath rr) (data rr) = Inr bytes
      \<and> \<not> (\<exists>fieldMap ident. unmarshalFields w bytes = Inr fieldMap
                \<and> fieldMap ''id'' = Some (VString ident))
      \<longrightarrow> fst (snd (CreateRequiredResource w s n)) \<noteq> None)
   \<and> (createLoop w s pre = (Return None, s1)
        \<and> CreateRequiredResource w s1 (rrName r) = (v, Some err, s2)
      \<longrightarrow> createLoop w s (pre @ r # post) = (Return (Some err), s2)
          \<and> Profile s2 = Profile s1
          \<and> list_all createEvent (callsSince s1 s2)
          \<and> (\<forall>p\<in>set pre. persisted (Profile s2) (rrName p)))
   \<and> (CreateRequiredResource w s (rrName r) = (v, None, s')
      \<longrightarrow> (\<exists>s''. createLoop w s (r # post) = createLoop w s'' post
                 \<and> calls s'' = calls s' @ [SetStripeSampleResourceIDCall (rrName r) v,
                                           WriteConfigFieldCall (rrName r) v]
                 \<and> sampleResourceIDs (Profile s'') (rrName r) = Some v
                 \<and> configFields (Profile s'') (rrName r) = Some v))
   \<and> (selectIntegration w s0 = (None, sa) \<and> selectClient w sa = (None, sb)
        \<and> selectServer w sb = (None, sc)
        \<and> MissingRequiredResources sc = (missingResources, sd)
        \<and> elems missingResources \<noteq> []
        \<and> shouldCreateRequiredResourcesPrompt w sd (map description (elems missingResources))
            = (True, None, se)
      \<longrightarrow> SelectOptions w s0 = createLoop w se (elems missingResources))"
proof -
  have bad: "fst (snd (CreateRequiredResource w s n)) \<noteq> None"
    if "getRequiredResource n = Some rr" "GetAPIKey w (calls s) False = Inr apiKey"
      "MakeRequest w (calls s @ [GetAPIKeyCall False]) apiKey (httpPath rr) (data rr) = Inr bytes"
      "\<not> (\<exists>fieldMap ident. unmarshalFields w bytes = Inr fieldMap
                \<and> fieldMap ''id'' = Some (VString ident))"
    using that by (rule CreateRequiredResource_bad_body)
  have stop: "createLoop w s (pre @ r # post) = (Return (Some err), s2)
          \<and> Profile s2 = Profile s1
          \<and> list_all createEvent (callsSince s1 s2)
          \<and> (\<forall>p\<in>set pre. persisted (Profile s2) (rrName p))"
    if run: "createLoop w s pre = (Return None, s1)"
      and fail: "CreateRequiredResource w s1 (rrName r) = (v, Some err, s2)"
  proof -
    have "createLoop w s (pre @ r # post) = createLoop w s1 (r # post)"
      using run by (rule createLoop_append)
    then have a: "createLoop w s (pre @ r # post) = (Return (Some err), s2)"
      using fail by simp
    have b: "Profile s2 = Profile s1" and c: "list_all createEvent (callsSince s1 s2)"
      using CreateRequiredResource_frame [of w s1 "rrName r"] fail
      by (simp_all add: grows_callsSince)
    show ?thesis
      using a b c createLoop_persisted [OF run] by simp
  qed
  have step: "\<exists>s''. createLoop w s (r # post) = createLoop w s'' post
                 \<and> calls s'' = calls s' @ [SetStripeSampleResourceIDCall (rrName r) v,
                                           WriteConfigFieldCall (rrName r) v]
                 \<and> sampleResourceIDs (Profile s'') (rrName r) = Some v
                 \<and> configFields (Profile s'') (rrName r) = Some v"
    if ok: "CreateRequiredResource w s (rrName r) = (v, None, s')"
  proof -
    let ?s2 = "snd (PersistRequiredResourceID s' (rrName r) v)"
    have "createLoop w s (r # post) = createLoop w ?s2 post"
      using ok by simp
    moreover have "calls ?s2 = calls s' @ [SetStripeSampleResourceIDCall (rrName r) v,
                                           WriteConfigFieldCall (rrName r) v]
                 \<and> sampleResourceIDs (Profile ?s2) (rrName r) = Some v
                 \<and> configFields (Profile ?s2) (rrName r) = Some v"
      by (simp add: PersistRequiredResourceID_def WriteConfigField_def
          SetStripeSampleResourceID_def emit_def)
    ultimately show ?thesis by blast
  qed
  have reach: "SelectOptions w s0 = createLoop w se (elems missingResources)"
    if "selectIntegration w s0 = (None, sa)" "selectClient w sa = (None, sb)"
      "selectServer w sb = (None, sc)" "MissingRequiredResources sc = (missingResources, sd)"
      "elems missingResources \<noteq> []"
      "shouldCreateRequiredResourcesPrompt w sd (map description (elems missingResources))
         = (True, None, se)"
    using that by (simp add: SelectOptions_def provision_def)
  show ?thesis
    using bad stop step reach by blast
qed

lemma basic_created:
  "CreateRequiredResource basicOnlyWorld askedSamples (rrName (hd requiredResources))
     = (''price_new'', None,
        askedSamples\<lparr>calls := calls askedSamples @
           [GetAPIKeyCall False,
            MakeRequestCall ''sk_test_1'' ''/v1/prices'' (data (hd requiredResources))]\<rparr>)"
  by (simp add: CreateRequiredResource_def getRequiredResource_def requiredResources_def
      call_def emit_def basicOnlyWorld_def idleWorld_def)

lemma basic_loop:
  "createLoop basicOnlyWorld askedSamples [hd requiredResources] = (Return None, basicCreated)"
  by (simp add: basic_created PersistRequiredResourceID_def WriteConfigField_def
      SetStripeSampleResourceID_def emit_def)
     (simp add: basicCreated_def askedSamples_def provisionSamples_def newSamples_def
      emptyProfile_def requiredResources_def)

lemma pro_refused:
  "CreateRequiredResource basicOnlyWorld basicCreated (rrName (requiredResources ! 1))
     = ('''',
        Some (Err (''Unexpected response from stripe API when creating ''
                   @ ''stripe_samples_price_recurring_pro_id''
                   @ '', did not contain ID: '' @ ''{}'')),
        proRefused)"
  by (simp add: CreateRequiredResource_def getRequiredResource_def requiredResources_def
      call_def emit_def basicOnlyWorld_def idleWorld_def proRefused_def)

lemma provision_reaches_loop:
  "selectIntegration basicOnlyWorld provisionSamples
     = (None, provisionSamples\<lparr>integration := Some webNode\<rparr>)
   \<and> selectClient basicOnlyWorld (provisionSamples\<lparr>integration := Some webNode\<rparr>)
     = (None, provisionSamples\<lparr>integration := Some webNode\<rparr>)
   \<and> selectServer basicOnlyWorld (provisionSamples\<lparr>integration := Some webNode\<rparr>)
     = (None, provisionSamples\<lparr>integration := Some webNode\<rparr>)"
  by (simp add: selectIntegration_def selectClient_def selectServer_def hasIntegrations_def
      hasMultipleClients_def hasMultipleServers_def provisionSamples_def newSamples_def
      emptyConfig_def webNode_def)

lemma provision_missing:
  "MissingRequiredResources (provisionSamples\<lparr>integration := Some webNode\<rparr>)
     = (Some requiredResources,
        provisionSamples\<lparr>integration := Some webNode,
          calls := [GetStripeSampleResourceIDCall ''stripe_samples_price_recurring_basic_id'',
                    GetStripeSampleResourceIDCall ''stripe_samples_price_recurring_pro_id'']\<rparr>)"
  by (simp add: MissingRequiredResources_def provisionSamples_def newSamples_def emptyConfig_def
      basicRef_def proRef_def getRequiredResource_basic getRequiredResource_pro
      GetStripeSampleResourceID_def emit_def emptyProfile_def)
     (simp add: requiredResources_def)

lemma provision_asked:
  "shouldCreateRequiredResourcesPrompt basicOnlyWorld
     (provisionSamples\<lparr>integration := Some webNode,
          calls := [GetStripeSampleResourceIDCall ''stripe_samples_price_recurring_basic_id'',
                    GetStripeSampleResourceIDCall ''stripe_samples_price_recurring_pro_id'']\<rparr>)
     (map description requiredResources)
   = (True, None, askedSamples)"
  by (simp add: shouldCreateRequiredResourcesPrompt_def selectOptions_def call_def emit_def
      basicOnlyWorld_def idleWorld_def askedSamples_def Let_def)

theorem provisioning_stops_at_first_failure_witness:
  "SelectOptions basicOnlyWorld provisionSamples
     = (Return (Some (Err (''Unexpected response from stripe API when creating ''
                           @ ''stripe_samples_price_recurring_pro_id''
                           @ '', did not contain ID: '' @ ''{}''))),
        proRefused)
   \<and> persisted (Profile proRefused) ''stripe_samples_price_recurring_basic_id''
   \<and> sampleResourceIDs (Profile proRefused) ''stripe_samples_price_recurring_pro_id'' = None
   \<and> fst (snd (CreateRequiredResource basicOnlyWorld basicCreated
                  ''stripe_samples_price_recurring_pro_id'')) \<noteq> None"
proof -
  let ?e = "Err (''Unexpected response from stripe API when creating ''
                 @ ''stripe_samples_price_recurring_pro_id''
                 @ '', did not contain ID: '' @ ''{}'')"
  note t = provisioning_stops_at_first_failure
    [where w = basicOnlyWorld and s = askedSamples and pre = "[hd requiredResources]"
       and ?s1.0 = basicCreated and r = "requiredResources ! 1" and v = "''''"
       and err = ?e and ?s2.0 = proRefused and post = "[]"]
  have list: "requiredResources = [hd requiredResources] @ (requiredResources ! 1) # []"
    by (simp add: requiredResources_def)
  have loop: "createLoop basicOnlyWorld askedSamples ([hd requiredResources] @ (requiredResources ! 1) # [])
                = (Return (Some ?e), proRefused)
              \<and> (\<forall>p\<in>set [hd requiredResources]. persisted (Profile proRefused) (rrName p))"
    using t basic_loop pro_refused by blast
  note r = provisioning_stops_at_first_failure
    [where w = basicOnlyWorld and ?s0.0 = provisionSamples
       and sa = "provisionSamples\<lparr>integration := Some webNode\<rparr>"
       and sb = "provisionSamples\<lparr>integration := Some webNode\<rparr>"
       and sc = "provisionSamples\<lparr>integration := Some webNode\<rparr>"
       and missingResources = "Some requiredResources"
       and sd = "provisionSamples\<lparr>integration := Some webNode,
          calls := [GetStripeSampleResourceIDCall ''stripe_samples_price_recurring_basic_id'',
                    GetStripeSampleResourceIDCall ''stripe_samples_price_recurring_pro_id'']\<rparr>"
       and se = askedSamples]
  have el: "elems (Some requiredResources) = requiredResources" "requiredResources \<noteq> []"
    by (simp_all add: elems_def requiredResources_def)
  have "SelectOptions basicOnlyWorld provisionSamples
          = createLoop basicOnlyWorld askedSamples (elems (Some requiredResources))"
    by (rule r [THEN conjunct2, THEN conjunct2, THEN conjunct2, rule_format])
       (simp add: provision_reaches_loop provision_missing provision_asked el)
  then have run: "SelectOptions basicOnlyWorld provisionSamples = (Return (Some ?e), proRefused)"
    using loop list el by metis
  have kept: "persisted (Profile proRefused) ''stripe_samples_price_recurring_basic_id''"
    using loop by (simp add: requiredResources_def)
  have none: "sampleResourceIDs (Profile proRefused) ''stripe_samples_price_recurring_pro_id'' = None"
    by (simp add: proRefused_def basicCreated_def)
  note u = provisioning_stops_at_first_failure
    [where w = basicOnlyWorld and s = basicCreated
       and n = "''stripe_samples_price_recurring_pro_id''" and rr = "requiredResources ! 1"
       and apiKey = "''sk_test_1''" and bytes = "''{}''"]
  have g: "getRequiredResource ''stripe_samples_price_recurring_pro_id'' = Some (requiredResources ! 1)"
    by (rule getRequiredResource_pro)
  have k: "GetAPIKey basicOnlyWorld (calls basicCreated) False = Inr ''sk_test_1''"
    by (simp add: basicOnlyWorld_def idleWorld_def)
  have q: "MakeRequest basicOnlyWorld (calls basicCreated @ [GetAPIKeyCall False]) ''sk_test_1''
             (httpPath (requiredResources ! 1)) (data (requiredResources ! 1)) = Inr ''{}''"
    by (simp add: basicOnlyWorld_def requiredResources_def)
  have b: "\<not> (\<exists>fieldMap ident. unmarshalFields basicOnlyWorld ''{}'' = Inr fieldMap
                \<and> fieldMap ''id'' = Some (VString ident))"
    by (simp add: basicOnlyWorld_def)
  have bad: "fst (snd (CreateRequiredResource basicOnlyWorld basicCreated
                  ''stripe_samples_price_recurring_pro_id'')) \<noteq> None"
    using u g k q b by blast
  show ?thesis
    using run kept none bad by blast
qed

end
